theory Spec2Isabelle
  imports Main
begin

section \<open>JavaScript values\<close>

text \<open>
  The two modules of the repository, \<^verbatim>\<open>src/auth.js\<close> and a second, simpler copy of
  it (\<^verbatim>\<open>unnamed/part_000\<close>, called the legacy module below), are JavaScript. The values
  they test for truthiness are strings, \<^verbatim>\<open>undefined\<close>, \<^verbatim>\<open>null\<close> and decoded JSON.
  A string is truthy exactly when it is not empty; a value that may be
  \<^verbatim>\<open>undefined\<close> is an \<open>option\<close>.
\<close>

datatype jsval =
    JUndefined
  | JNull
  | JBool bool
  | JNum int
  | JStr string
  | JArr "jsval list"
  | JObj "(string \<times> jsval) list"

fun truthy :: "jsval \<Rightarrow> bool" where
  "truthy JUndefined = False"
| "truthy JNull = False"
| "truthy (JBool b) = b"
| "truthy (JNum n) = (n \<noteq> 0)"
| "truthy (JStr s) = (s \<noteq> [])"
| "truthy (JArr xs) = True"
| "truthy (JObj kvs) = True"

text \<open>
  \<open>js_prop v k\<close> is the property read \<^verbatim>\<open>v.k\<close> on a value that is neither
  \<^verbatim>\<open>undefined\<close> nor \<^verbatim>\<open>null\<close> (the source guards every such read with a truthiness
  test): an object yields the stored value, anything else yields \<^verbatim>\<open>undefined\<close>.
\<close>

fun js_prop :: "jsval \<Rightarrow> string \<Rightarrow> jsval" where
  "js_prop (JObj kvs) k = (case map_of kvs k of None \<Rightarrow> JUndefined | Some v \<Rightarrow> v)"
| "js_prop v k = JUndefined"

text \<open>
  \<open>nonempty s\<close> is \<open>s\<close> when it is truthy and \<open>None\<close> otherwise: the guard
  \<^verbatim>\<open>if (s) { ... s ... }\<close>.
\<close>

definition nonempty :: "string option \<Rightarrow> string option" where
  "nonempty s = (case s of None \<Rightarrow> None | Some v \<Rightarrow> if v = [] then None else Some v)"

text \<open>\<^verbatim>\<open>s.split(" ")\<close>: cut at every single space; the result is never empty.\<close>

fun split_sp :: "string \<Rightarrow> string list" where
  "split_sp [] = [[]]"
| "split_sp (c # cs) =
     (if c = CHR '' '' then [] # split_sp cs
      else (case split_sp cs of [] \<Rightarrow> [[c]] | w # ws \<Rightarrow> (c # w) # ws))"

text \<open>\<^verbatim>\<open>s.toLowerCase()\<close> on the ASCII letters.\<close>

definition lower_char :: "char \<Rightarrow> char" where
  "lower_char c =
     (case map_of (zip ''ABCDEFGHIJKLMNOPQRSTUVWXYZ'' ''abcdefghijklmnopqrstuvwxyz'') c of
        None \<Rightarrow> c
      | Some l \<Rightarrow> l)"

definition toLowerCase :: "string \<Rightarrow> string" where
  "toLowerCase s = map lower_char s"

section \<open>Errors\<close>

text \<open>
  Modelled from the spec: the class \<^verbatim>\<open>UnauthorizedError\<close> (\<^verbatim>\<open>./unauthorizedError\<close>)
  is not among the sources. Every failure of the modules is an instance of it; the
  constructors are the kinds of the specification's taxonomy, one per throw site:
  \<^item> \<open>MalformedAuthorizationHeader\<close>: \<^verbatim>\<open>"Format is Authorization: Bearer [token]"\<close>;
  \<^item> \<open>MissingToken\<close>: \<^verbatim>\<open>"JWT is required"\<close> (legacy:
    \<^verbatim>\<open>"No authorization token was found"\<close>);
  \<^item> \<open>VerificationError m\<close>: \<^verbatim>\<open>new UnauthorizedError(error, "Verification Error")\<close>,
    \<open>m\<close> the message of the wrapped error;
  \<^item> \<open>NoMatchingKey\<close>: \<^verbatim>\<open>"Verification Error: No matching keys"\<close>;
  \<^item> \<open>SigningError m\<close>: \<^verbatim>\<open>new UnauthorizedError(err, "Token signing failed")\<close>.
\<close>

datatype UnauthorizedError =
    MalformedAuthorizationHeader
  | MissingToken
  | NoMatchingKey
  | VerificationError string
  | SigningError string

section \<open>Configuration, keystore and the token primitive\<close>

text \<open>\<^verbatim>\<open>process.env\<close>: the three variables the modules read, \<open>None\<close> when unset.\<close>

record env =
  MAX_JWT_AGE :: "string option"
  REQUIRE_AUTH :: "string option"
  NODE_ENV :: "string option"

text \<open>
  The keystore is the object the keystore builder resolved to, a plain object: its own
  properties as (identifier, key material) pairs in enumeration order
  (\<^verbatim>\<open>for ... in\<close>, \<^verbatim>\<open>Object.keys\<close>). An object holds one value per name, so the
  identifiers of a keystore are distinct. No entry is taken to be named
  \<^verbatim>\<open>hasOwnProperty\<close>, the method the scan calls on the keystore.
\<close>

type_synonym keystore = "(string \<times> string) list"

text \<open>
  \<^verbatim>\<open>keystore[k]\<close> as JavaScript resolves it: the material of the own entry named
  \<open>k\<close>; else, for the names every plain object inherits from
  \<^verbatim>\<open>Object.prototype\<close>, the inherited member (a function or an object, never a
  string); else \<^verbatim>\<open>undefined\<close>. Key material is truthy when it is not empty, an
  inherited member always.
\<close>

datatype js_key = Material string | Inherited string

definition object_prototype :: "string list" where
  "object_prototype =
     [''constructor'', ''__defineGetter__'', ''__defineSetter__'', ''hasOwnProperty'',
      ''__lookupGetter__'', ''__lookupSetter__'', ''isPrototypeOf'',
      ''propertyIsEnumerable'', ''toString'', ''valueOf'', ''__proto__'',
      ''toLocaleString'']"

definition js_get :: "keystore \<Rightarrow> string \<Rightarrow> js_key option" where
  "js_get keystore k =
     (case map_of keystore k of
        Some key \<Rightarrow> Some (Material key)
      | None \<Rightarrow> if k \<in> set object_prototype then Some (Inherited k) else None)"

fun key_truthy :: "js_key option \<Rightarrow> bool" where
  "key_truthy None = False"
| "key_truthy (Some (Material key)) = (key \<noteq> [])"
| "key_truthy (Some (Inherited k)) = True"

text \<open>The guard \<^verbatim>\<open>if (key) { ... key ... }\<close>, and \<^verbatim>\<open>a || b\<close> on such values.\<close>

definition truthy_key :: "js_key option \<Rightarrow> js_key option" where
  "truthy_key key = (if key_truthy key then key else None)"

definition js_or :: "js_key option \<Rightarrow> js_key option \<Rightarrow> js_key option" where
  "js_or a b = (if key_truthy a then a else b)"

text \<open>
  \<^verbatim>\<open>jsonwebtoken\<close> is an external library; the modules are modelled over any
  implementation of the three functions they call. \<^verbatim>\<open>jwt.decode\<close> returns the decoded
  token or \<^verbatim>\<open>null\<close> (\<open>None\<close>); \<^verbatim>\<open>jwt.verify\<close> and \<^verbatim>\<open>jwt.sign\<close> return
  or throw, and a thrown error is \<open>Inl\<close> of its message. The token is opaque to the
  modules (they hand it to the library as it is), so its type is a parameter; the
  middleware fixes it to \<open>string\<close>. Of the decoded header only \<^verbatim>\<open>kid\<close> is read. The
  key the library is given is whatever the keystore lookup yields; the key given to
  \<^verbatim>\<open>jwt.sign\<close> may be \<^verbatim>\<open>undefined\<close>, as may the \<^verbatim>\<open>kid\<close> it is told to put in
  the header.
\<close>

record jwt_header =
  kid :: "string option"

record decoded =
  header :: jwt_header
  payload :: jsval

record jwtOptions =
  algorithms :: "string list"
  maxAge :: "string option"

record signOptions =
  algorithm :: "string option"
  header_kid :: "string option"

record 't jsonwebtoken =
  decode :: "'t \<Rightarrow> decoded option"
  verify :: "'t \<Rightarrow> js_key \<Rightarrow> jwtOptions \<Rightarrow> string + jsval"
  sign :: "jsval \<Rightarrow> js_key option \<Rightarrow> signOptions \<Rightarrow> string + 't"

section \<open>Token extraction\<close>

text \<open>
  Of a request the modules read \<^verbatim>\<open>req.query.token\<close> and
  \<^verbatim>\<open>req.headers.authorization\<close>; \<open>None\<close> is an absent value.
\<close>

record request =
  query_token :: "string option"
  authorization :: "string option"

definition extractToken :: "request \<Rightarrow> UnauthorizedError + string option" where
  "extractToken req =
     (case nonempty (query_token req) of
        Some t \<Rightarrow> Inr (Some t)
      | None \<Rightarrow>
          (case nonempty (authorization req) of
             Some h \<Rightarrow>
               (case split_sp h of
                  [scheme, credentials] \<Rightarrow>
                    if scheme = ''Bearer'' then Inr (Some credentials)
                    else Inl MalformedAuthorizationHeader
                | _ \<Rightarrow> Inl MalformedAuthorizationHeader)
           | None \<Rightarrow> Inr None))"

text \<open>
  The legacy module's \<^verbatim>\<open>_getToken\<close>: the same, but a request without a token is an
  error.
\<close>

definition getToken :: "request \<Rightarrow> UnauthorizedError + string" where
  "getToken req =
     (case nonempty (query_token req) of
        Some t \<Rightarrow> Inr t
      | None \<Rightarrow>
          (case nonempty (authorization req) of
             Some h \<Rightarrow>
               (case split_sp h of
                  [scheme, credentials] \<Rightarrow>
                    if scheme = ''Bearer'' then Inr credentials
                    else Inl MalformedAuthorizationHeader
                | _ \<Rightarrow> Inl MalformedAuthorizationHeader)
           | None \<Rightarrow> Inl MissingToken))"

section \<open>The verification engine\<close>

text \<open>
  A verifier returns the triple \<^verbatim>\<open>[error, payload, kid]\<close>. Its error is
  \<^verbatim>\<open>undefined\<close>, a plain string (which has no \<^verbatim>\<open>message\<close>), or the error object
  that \<^verbatim>\<open>jwt.verify\<close> threw. Each verifier also reports the calls of
  \<^verbatim>\<open>jwt.verify\<close> it made, as (key identifier, options) in the order made: the
  claims speak of which keys are tried.
\<close>

datatype js_error = NoError | Plain string | Thrown string

type_synonym verify_call = "string \<times> jwtOptions"

type_synonym verifier_result = "verify_call list \<times> (js_error \<times> jsval \<times> string option)"

text \<open>\<^verbatim>\<open>error && error.message && error.message !== "invalid signature"\<close>.\<close>

fun fatal :: "js_error \<Rightarrow> bool" where
  "fatal (Thrown m) = (m \<noteq> [] \<and> m \<noteq> ''invalid signature'')"
| "fatal e = False"

fun message :: "js_error \<Rightarrow> string" where
  "message (Thrown m) = m"
| "message (Plain s) = s"
| "message NoError = []"

text \<open>The \<^verbatim>\<open>switch (purpose)\<close> of \<^verbatim>\<open>src/auth.js\<close>.\<close>

definition algorithms_for :: "string \<Rightarrow> string list" where
  "algorithms_for purpose =
     (if purpose = ''local'' then [''HS512'']
      else if purpose = ''public'' then [''ES512'']
      else [])"

text \<open>
  \<^verbatim>\<open>jwtOptions\<close> of \<^verbatim>\<open>src/auth.js\<close>: \<^verbatim>\<open>maxAge\<close> is set, to
  \<^verbatim>\<open>process.env.MAX_JWT_AGE\<close>, when
  \<^verbatim>\<open>decoded && decoded.payload && decoded.payload.exp === undefined\<close>. An option
  that was never set and one set to \<^verbatim>\<open>undefined\<close> are both \<open>None\<close>.
\<close>

definition build_jwtOptions :: "env \<Rightarrow> string \<Rightarrow> decoded option \<Rightarrow> jwtOptions" where
  "build_jwtOptions e purpose d =
     \<lparr>algorithms = algorithms_for purpose,
      maxAge =
        (case d of
           None \<Rightarrow> None
         | Some dec \<Rightarrow>
             if truthy (payload dec) \<and> js_prop (payload dec) ''exp'' = JUndefined
             then MAX_JWT_AGE e else None)\<rparr>"

definition verifyWithKid ::
  "'t jsonwebtoken \<Rightarrow> keystore \<Rightarrow> 't \<Rightarrow> decoded option \<Rightarrow> jwtOptions \<Rightarrow> verifier_result" where
  "verifyWithKid jwt keystore token d opts =
     (case d of
        None \<Rightarrow> ([], (Plain ''kid verification failed'', JUndefined, None))
      | Some dec \<Rightarrow>
          (case nonempty (kid (header dec)) of
             None \<Rightarrow> ([], (Plain ''kid verification failed'', JUndefined, None))
           | Some k \<Rightarrow>
               (case truthy_key (js_get keystore k) of
                  None \<Rightarrow> ([], (Plain ''kid verification failed'', JUndefined, None))
                | Some key \<Rightarrow>
                    (case verify jwt token key opts of
                       Inr p \<Rightarrow> ([(k, opts)], (NoError, p, Some k))
                     | Inl m \<Rightarrow> ([(k, opts)], (Thrown m, JUndefined, None))))))"

definition verifyWithDefault ::
  "'t jsonwebtoken \<Rightarrow> keystore \<Rightarrow> 't \<Rightarrow> jwtOptions \<Rightarrow> verifier_result" where
  "verifyWithDefault jwt keystore token opts =
     (case truthy_key (js_get keystore ''default'') of
        None \<Rightarrow> ([], (Plain ''default verification failed'', JUndefined, None))
      | Some key \<Rightarrow>
          (case verify jwt token key opts of
             Inr p \<Rightarrow> ([(''default'', opts)], (NoError, p, Some ''default''))
           | Inl m \<Rightarrow> ([(''default'', opts)], (Thrown m, JUndefined, None))))"

text \<open>
  The \<^verbatim>\<open>for (const kid in keystore)\<close> loop, as recursion over the entries: the
  \<^verbatim>\<open>catch\<close> is empty, so whatever \<^verbatim>\<open>jwt.verify\<close> throws the loop goes on.
\<close>

fun verifyWithKeystore ::
  "'t jsonwebtoken \<Rightarrow> keystore \<Rightarrow> 't \<Rightarrow> jwtOptions \<Rightarrow> verifier_result" where
  "verifyWithKeystore jwt [] token opts =
     ([], (Plain ''all verification failed'', JUndefined, None))"
| "verifyWithKeystore jwt ((k, key) # entries) token opts =
     (if k \<noteq> ''default'' then
        (case verify jwt token (Material key) opts of
           Inr p \<Rightarrow> ([(k, opts)], (NoError, p, Some k))
         | Inl m \<Rightarrow>
             (case verifyWithKeystore jwt entries token opts of
                (calls, r) \<Rightarrow> ((k, opts) # calls, r)))
      else verifyWithKeystore jwt entries token opts)"

text \<open>
  The \<^verbatim>\<open>for (const verifier of verifiers)\<close> loop and the test after it. The list
  holds what each verifier returns when it is called; the calls of a verifier the loop
  does not reach are not reported.
\<close>

fun runVerifiers ::
  "verifier_result list \<Rightarrow> verify_call list \<times> (UnauthorizedError + jsval \<times> string option)" where
  "runVerifiers [] = ([], Inl NoMatchingKey)"
| "runVerifiers ((calls, (error, p, k)) # verifiers) =
     (if fatal error then (calls, Inl (VerificationError (message error)))
      else if truthy p then (calls, Inr (p, k))
      else (case runVerifiers verifiers of (calls', r) \<Rightarrow> (calls @ calls', r)))"

definition verifyTokenAndReturnPayloadAndKid ::
  "'t jsonwebtoken \<Rightarrow> env \<Rightarrow> keystore \<Rightarrow> string \<Rightarrow> 't \<Rightarrow>
     verify_call list \<times> (UnauthorizedError + jsval \<times> string option)" where
  "verifyTokenAndReturnPayloadAndKid jwt e keystore purpose token =
     (let d = decode jwt token;
          opts = build_jwtOptions e purpose d
      in runVerifiers
           [verifyWithKid jwt keystore token d opts,
            verifyWithDefault jwt keystore token opts,
            verifyWithKeystore jwt keystore token opts])"

definition verifyTokenAndReturnKid ::
  "'t jsonwebtoken \<Rightarrow> env \<Rightarrow> keystore \<Rightarrow> string \<Rightarrow> 't \<Rightarrow>
     verify_call list \<times> (UnauthorizedError + string option)" where
  "verifyTokenAndReturnKid jwt e keystore purpose token =
     (case verifyTokenAndReturnPayloadAndKid jwt e keystore purpose token of
        (calls, Inl err) \<Rightarrow> (calls, Inl err)
      | (calls, Inr (p, k)) \<Rightarrow> (calls, Inr k))"

definition verifyToken ::
  "'t jsonwebtoken \<Rightarrow> env \<Rightarrow> keystore \<Rightarrow> string \<Rightarrow> 't \<Rightarrow>
     verify_call list \<times> (UnauthorizedError + jsval)" where
  "verifyToken jwt e keystore purpose token =
     (case verifyTokenAndReturnPayloadAndKid jwt e keystore purpose token of
        (calls, Inl err) \<Rightarrow> (calls, Inl err)
      | (calls, Inr (p, k)) \<Rightarrow> (calls, Inr p))"

subsection \<open>The legacy engine\<close>

text \<open>\<^verbatim>\<open>_maxAge\<close>: \<^verbatim>\<open>process.env.MAX_JWT_AGE || "5s"\<close>.\<close>

definition legacy_maxAge :: "env \<Rightarrow> string" where
  "legacy_maxAge e = (case nonempty (MAX_JWT_AGE e) of None \<Rightarrow> ''5s'' | Some a \<Rightarrow> a)"

definition legacy_options :: "env \<Rightarrow> jwtOptions" where
  "legacy_options e = \<lparr>algorithms = [''HS256''], maxAge = Some (legacy_maxAge e)\<rparr>"

text \<open>
  The legacy \<^verbatim>\<open>verifyToken\<close> runs the same three verifiers (they return the pair
  \<^verbatim>\<open>[error, payload]\<close>, the triple without its last component) with options that do
  not depend on the token, and returns the payload alone.
\<close>

definition legacy_verifyToken ::
  "'t jsonwebtoken \<Rightarrow> env \<Rightarrow> keystore \<Rightarrow> 't \<Rightarrow> verify_call list \<times> (UnauthorizedError + jsval)" where
  "legacy_verifyToken jwt e keystore token =
     (let opts = legacy_options e in
      case runVerifiers
             [verifyWithKid jwt keystore token (decode jwt token) opts,
              verifyWithDefault jwt keystore token opts,
              verifyWithKeystore jwt keystore token opts] of
        (calls, Inl err) \<Rightarrow> (calls, Inl err)
      | (calls, Inr (p, k)) \<Rightarrow> (calls, Inr p))"

section \<open>The required-auth policy\<close>

definition required :: "env \<Rightarrow> bool" where
  "required e =
     (case nonempty (REQUIRE_AUTH e) of
        Some v \<Rightarrow> toLowerCase v \<noteq> ''false'' \<and> v \<noteq> ''0''
      | None \<Rightarrow> NODE_ENV e = Some ''production'')"

definition legacy_required :: "env \<Rightarrow> bool" where
  "legacy_required e = (NODE_ENV e = Some ''production'' \<or> REQUIRE_AUTH e = Some ''true'')"

section \<open>The middleware\<close>

text \<open>
  \<^verbatim>\<open>res.locals\<close> as the middleware of \<^verbatim>\<open>src/auth.js\<close> writes it. The middleware
  returns the calls of \<^verbatim>\<open>jwt.verify\<close> it caused, the locals as it leaves them, and the
  argument it hands to \<^verbatim>\<open>next\<close> (\<open>None\<close> for \<^verbatim>\<open>next()\<close>). \<^verbatim>\<open>jwt.decode(token)\<close>
  is the payload of the decoded token, or \<^verbatim>\<open>null\<close>.
\<close>

record locals =
  JWTPayload :: jsval
  JWTVerifyingKid :: "string option"

definition decode_payload :: "'t jsonwebtoken \<Rightarrow> 't \<Rightarrow> jsval" where
  "decode_payload jwt token = (case decode jwt token of None \<Rightarrow> JNull | Some dec \<Rightarrow> payload dec)"

definition authMiddleware ::
  "string jsonwebtoken \<Rightarrow> env \<Rightarrow> keystore \<Rightarrow> string \<Rightarrow> bool \<Rightarrow> request \<Rightarrow> locals \<Rightarrow>
     verify_call list \<times> locals \<times> UnauthorizedError option" where
  "authMiddleware jwt e keystore purpose isRequired req loc =
     (case extractToken req of
        Inl err \<Rightarrow> ([], loc, Some err)
      | Inr token \<Rightarrow>
          (case nonempty token of
             Some t \<Rightarrow>
               (let loc1 = loc\<lparr>JWTPayload := decode_payload jwt t\<rparr> in
                if isRequired then
                  (case verifyTokenAndReturnKid jwt e keystore purpose t of
                     (calls, Inl err) \<Rightarrow> (calls, loc1, Some err)
                   | (calls, Inr k) \<Rightarrow> (calls, loc1\<lparr>JWTVerifyingKid := k\<rparr>, None))
                else ([], loc1, None))
           | None \<Rightarrow>
               if isRequired then ([], loc, Some MissingToken) else ([], loc, None)))"

text \<open>
  \<^verbatim>\<open>buildMiddleware\<close>: \<^verbatim>\<open>isRequired\<close> and \<^verbatim>\<open>purpose\<close> default to
  \<^verbatim>\<open>required()\<close> and \<^verbatim>\<open>"local"\<close>.
\<close>

definition buildMiddleware ::
  "string jsonwebtoken \<Rightarrow> env \<Rightarrow> keystore \<Rightarrow> string option \<Rightarrow> bool option \<Rightarrow> request \<Rightarrow> locals \<Rightarrow>
     verify_call list \<times> locals \<times> UnauthorizedError option" where
  "buildMiddleware jwt e keystore purpose isRequired =
     authMiddleware jwt e keystore
       (case purpose of None \<Rightarrow> ''local'' | Some p \<Rightarrow> p)
       (case isRequired of None \<Rightarrow> required e | Some b \<Rightarrow> b)"

text \<open>The legacy middleware writes \<^verbatim>\<open>res.locals.payload\<close> and never reads the policy.\<close>

record legacy_locals =
  locals_payload :: jsval

definition legacy_authMiddleware ::
  "string jsonwebtoken \<Rightarrow> env \<Rightarrow> keystore \<Rightarrow> request \<Rightarrow> legacy_locals \<Rightarrow>
     verify_call list \<times> legacy_locals \<times> UnauthorizedError option" where
  "legacy_authMiddleware jwt e keystore req loc =
     (case getToken req of
        Inl err \<Rightarrow> ([], loc, Some err)
      | Inr t \<Rightarrow>
          (case legacy_verifyToken jwt e keystore t of
             (calls, Inl err) \<Rightarrow> (calls, loc, Some err)
           | (calls, Inr p) \<Rightarrow> (calls, loc\<lparr>locals_payload := p\<rparr>, None)))"

section \<open>Token issuance\<close>

text \<open>
  \<^verbatim>\<open>keystore[kid]\<close> with \<^verbatim>\<open>kid\<close> undefined reads the property named
  \<^verbatim>\<open>"undefined"\<close>; so does \<^verbatim>\<open>keystore[Object.keys(keystore)[0]]\<close> on an empty
  keystore.
\<close>

definition propertyKey :: "string option \<Rightarrow> string" where
  "propertyKey k = (case k of None \<Rightarrow> ''undefined'' | Some s \<Rightarrow> s)"

definition firstKey :: "keystore \<Rightarrow> string option" where
  "firstKey keystore = (case keystore of [] \<Rightarrow> None | (k, key) # entries \<Rightarrow> Some k)"

text \<open>
  \<^verbatim>\<open>keystore[kid] || keystore.default || keystore[Object.keys(keystore)[0]]\<close>
\<close>

definition signingKey :: "keystore \<Rightarrow> string option \<Rightarrow> js_key option" where
  "signingKey keystore requested =
     js_or (js_get keystore (propertyKey requested))
       (js_or (js_get keystore ''default'')
          (js_get keystore (propertyKey (firstKey keystore))))"

text \<open>\<^verbatim>\<open>Object.keys(keystore).find(k => keystore[k] === key)\<close>\<close>

definition signingKid :: "keystore \<Rightarrow> js_key option \<Rightarrow> string option" where
  "signingKid keystore key = find (\<lambda>k. js_get keystore k = key) (map fst keystore)"

definition createToken ::
  "'t jsonwebtoken \<Rightarrow> keystore \<Rightarrow> jsval \<Rightarrow> string option \<Rightarrow> string option \<Rightarrow> UnauthorizedError + 't" where
  "createToken jwt keystore p requested alg =
     (let key = signingKey keystore requested in
      case sign jwt p key
             \<lparr>algorithm = Some (case alg of None \<Rightarrow> ''HS512'' | Some a \<Rightarrow> a),
              header_kid = signingKid keystore key\<rparr> of
        Inl m \<Rightarrow> Inl (SigningError m)
      | Inr token \<Rightarrow> Inr token)"

text \<open>The legacy \<^verbatim>\<open>createToken\<close> passes no algorithm.\<close>

definition legacy_createToken ::
  "'t jsonwebtoken \<Rightarrow> keystore \<Rightarrow> jsval \<Rightarrow> string option \<Rightarrow> UnauthorizedError + 't" where
  "legacy_createToken jwt keystore p requested =
     (let key = signingKey keystore requested in
      case sign jwt p key \<lparr>algorithm = None, header_kid = signingKid keystore key\<rparr> of
        Inl m \<Rightarrow> Inl (SigningError m)
      | Inr token \<Rightarrow> Inr token)"

subsection \<open>The priority order of key selection\<close>

text \<open>
  The priority order of the specification, to compare \<open>signingKey\<close> with, an entry
  counting as present when its key material is not empty: the requested identifier if
  present, else the \<^verbatim>\<open>default\<close> entry if present, else the first entry in enumeration
  order; none for an empty keystore.
\<close>

definition priority_fallback :: "keystore \<Rightarrow> string option" where
  "priority_fallback keystore =
     (case nonempty (map_of keystore ''default'') of
        Some key \<Rightarrow> Some key
      | None \<Rightarrow> (case keystore of [] \<Rightarrow> None | (k, key) # entries \<Rightarrow> Some key))"

definition priority_select :: "keystore \<Rightarrow> string option \<Rightarrow> string option" where
  "priority_select keystore requested =
     (case requested of
        None \<Rightarrow> priority_fallback keystore
      | Some k \<Rightarrow>
          (case nonempty (map_of keystore k) of
             Some key \<Rightarrow> Some key
           | None \<Rightarrow> priority_fallback keystore))"

section \<open>A reference primitive\<close>

text \<open>
  A symbolic stand-in for \<^verbatim>\<open>jsonwebtoken\<close>, used to run the modules at concrete inputs.
  A token is either not a token at all, or records the algorithm, the header's
  \<^verbatim>\<open>kid\<close>, the payload and the key that signed it. Verification checks, in the
  library's order: that the token parses, that a key is given and is key material (an
  inherited function is refused), that the algorithm is a permitted one, that the key is
  the signing key, and the \<^verbatim>\<open>exp\<close> claim against the clock \<open>now\<close>. Signing refuses a
  missing or empty key and a key that is not key material, as the library does. The
  enforcement of \<^verbatim>\<open>maxAge\<close> is left out.
\<close>

datatype stoken = Garbage | Signed string "string option" jsval string

fun ref_decode :: "stoken \<Rightarrow> decoded option" where
  "ref_decode Garbage = None"
| "ref_decode (Signed alg k p signer) = Some \<lparr>header = \<lparr>kid = k\<rparr>, payload = p\<rparr>"

fun ref_verify :: "int \<Rightarrow> stoken \<Rightarrow> js_key \<Rightarrow> jwtOptions \<Rightarrow> string + jsval" where
  "ref_verify now Garbage key opts = Inl ''jwt malformed''"
| "ref_verify now (Signed alg k p signer) (Inherited name) opts =
     Inl ''verify must be called asynchronous if secret or public key is provided as a callback''"
| "ref_verify now (Signed alg k p signer) (Material key) opts =
     (if key = [] then Inl ''secret or public key must be provided''
      else if alg \<notin> set (algorithms opts) then Inl ''invalid algorithm''
      else if signer \<noteq> key then Inl ''invalid signature''
      else (case js_prop p ''exp'' of
              JUndefined \<Rightarrow> Inr p
            | JNum t \<Rightarrow> if t \<le> now then Inl ''jwt expired'' else Inr p
            | _ \<Rightarrow> Inl ''invalid exp value''))"

fun ref_sign :: "jsval \<Rightarrow> js_key option \<Rightarrow> signOptions \<Rightarrow> string + stoken" where
  "ref_sign p None opts = Inl ''secretOrPrivateKey must have a value''"
| "ref_sign p (Some (Inherited name)) opts = Inl ''secretOrPrivateKey is not valid key material''"
| "ref_sign p (Some (Material key)) opts =
     (if key = [] then Inl ''secretOrPrivateKey must have a value''
      else Inr (Signed (case algorithm opts of None \<Rightarrow> ''HS256'' | Some a \<Rightarrow> a)
                  (header_kid opts) p key))"

definition ref_jwt :: "int \<Rightarrow> stoken jsonwebtoken" where
  "ref_jwt now = \<lparr>decode = ref_decode, verify = ref_verify now, sign = ref_sign\<rparr>"

text \<open>
  For the middleware, whose tokens are strings: three tokens on the wire, two signed
  with the key \<^verbatim>\<open>secret\<close> (under HS512 and under HS256) and one forged with a guessed
  key; every other string is not a token. The middleware never signs.
\<close>

definition wire :: "string \<Rightarrow> stoken" where
  "wire s =
     (if s = ''good'' then
        Signed ''HS512'' (Some ''k1'') (JObj [(''sub'', JStr ''alice''), (''exp'', JNum 2000)]) ''secret''
      else if s = ''forged'' then
        Signed ''HS512'' (Some ''k1'') (JObj [(''sub'', JStr ''admin''), (''exp'', JNum 2000)]) ''guess''
      else if s = ''good256'' then
        Signed ''HS256'' (Some ''k1'') (JObj [(''sub'', JStr ''alice''), (''exp'', JNum 2000)]) ''secret''
      else Garbage)"

definition wire_jwt :: "int \<Rightarrow> string jsonwebtoken" where
  "wire_jwt now =
     \<lparr>decode = (\<lambda>s. ref_decode (wire s)),
      verify = (\<lambda>s. ref_verify now (wire s)),
      sign = (\<lambda>p key opts. Inl ''signing is not part of this fixture'')\<rparr>"

definition env0 :: env where
  "env0 = \<lparr>MAX_JWT_AGE = None, REQUIRE_AUTH = None, NODE_ENV = None\<rparr>"

definition locals0 :: locals where
  "locals0 = \<lparr>JWTPayload = JUndefined, JWTVerifyingKid = None\<rparr>"

definition legacy_locals0 :: legacy_locals where
  "legacy_locals0 = \<lparr>locals_payload = JUndefined\<rparr>"

section \<open>Auxiliary facts\<close>

lemma runVerifiers_error_kinds:
  "snd (runVerifiers vs) \<noteq> Inl MalformedAuthorizationHeader
   \<and> snd (runVerifiers vs) \<noteq> Inl MissingToken
   \<and> snd (runVerifiers vs) \<noteq> Inl (SigningError m)"
proof (induction vs)
  case Nil
  then show ?case by simp
next
  case (Cons v vs)
  obtain calls err p k where v: "v = (calls, (err, p, k))"
    by (cases v) auto
  show ?case
    using Cons.IH unfolding v by (auto split: prod.splits)
qed

lemma verifyTokenAndReturnKid_error_kinds:
  "snd (verifyTokenAndReturnKid jwt e keystore purpose token) \<noteq> Inl MalformedAuthorizationHeader"
  using runVerifiers_error_kinds
    [of "[verifyWithKid jwt keystore token (decode jwt token) (build_jwtOptions e purpose (decode jwt token)),
          verifyWithDefault jwt keystore token (build_jwtOptions e purpose (decode jwt token)),
          verifyWithKeystore jwt keystore token (build_jwtOptions e purpose (decode jwt token))]"]
  by (auto simp: verifyTokenAndReturnKid_def verifyTokenAndReturnPayloadAndKid_def Let_def
           split: prod.splits sum.splits)

lemma legacy_verifyToken_error_kinds:
  "snd (legacy_verifyToken jwt e keystore token) \<noteq> Inl MalformedAuthorizationHeader"
  using runVerifiers_error_kinds
    [of "[verifyWithKid jwt keystore token (decode jwt token) (legacy_options e),
          verifyWithDefault jwt keystore token (legacy_options e),
          verifyWithKeystore jwt keystore token (legacy_options e)]"]
  by (auto simp: legacy_verifyToken_def Let_def split: prod.splits sum.splits)

text \<open>Every call of \<^verbatim>\<open>jwt.verify\<close> an engine makes carries the options it was built with.\<close>

lemma verifyWithKid_calls:
  "c \<in> set (fst (verifyWithKid jwt keystore token d opts)) \<Longrightarrow> snd c = opts"
  by (auto simp: verifyWithKid_def split: option.splits sum.splits)

lemma verifyWithDefault_calls:
  "c \<in> set (fst (verifyWithDefault jwt keystore token opts)) \<Longrightarrow> snd c = opts"
  by (auto simp: verifyWithDefault_def split: option.splits sum.splits)

lemma verifyWithKeystore_calls:
  "c \<in> set (fst (verifyWithKeystore jwt keystore token opts)) \<Longrightarrow> snd c = opts"
proof (induction keystore)
  case Nil
  then show ?case by simp
next
  case (Cons entry entries)
  obtain k key where entry: "entry = (k, key)"
    by (cases entry) auto
  show ?case
    using Cons unfolding entry
    by (auto split: if_splits sum.splits prod.splits)
qed

lemma runVerifiers_calls:
  "c \<in> set (fst (runVerifiers vs)) \<Longrightarrow> \<exists>v \<in> set vs. c \<in> set (fst v)"
proof (induction vs)
  case Nil
  then show ?case by simp
next
  case (Cons v vs)
  obtain calls err p k where v: "v = (calls, (err, p, k))"
    by (cases v) auto
  show ?case
    using Cons unfolding v
    by (auto split: if_splits prod.splits)
qed

lemma engine_calls:
  assumes "c \<in> set (fst (runVerifiers
             [verifyWithKid jwt keystore token d opts,
              verifyWithDefault jwt keystore token opts,
              verifyWithKeystore jwt keystore token opts]))"
  shows "snd c = opts"
  using runVerifiers_calls [OF assms]
  by (auto dest: verifyWithKid_calls verifyWithDefault_calls verifyWithKeystore_calls)

text \<open>The keystore lookup at an own entry and at \<^verbatim>\<open>default\<close>.\<close>

lemma js_get_own:
  "map_of keystore k = Some key \<Longrightarrow> js_get keystore k = Some (Material key)"
  by (simp add: js_get_def)

lemma truthy_key_own:
  "map_of keystore k = Some key \<Longrightarrow> key \<noteq> [] \<Longrightarrow>
     truthy_key (js_get keystore k) = Some (Material key)"
  by (simp add: js_get_def truthy_key_def)




lemma strategies_kid_success:
  assumes "d = Some dec" and "kid (header dec) = Some K" and "K \<noteq> []"
      and "map_of keystore K = Some key" and "key \<noteq> []"
      and "verify jwt token (Material key) opts = Inr p" and "truthy p"
  shows "runVerifiers
           [verifyWithKid jwt keystore token d opts,
            verifyWithDefault jwt keystore token opts,
            verifyWithKeystore jwt keystore token opts]
         = ([(K, opts)], Inr (p, Some K))"
  using assms by (simp add: verifyWithKid_def nonempty_def js_get_def truthy_key_def)





lemma verifyTokenAndReturnPayloadAndKid_unfold:
  "verifyTokenAndReturnPayloadAndKid jwt e keystore purpose token
   = runVerifiers
       [verifyWithKid jwt keystore token (decode jwt token) (build_jwtOptions e purpose (decode jwt token)),
        verifyWithDefault jwt keystore token (build_jwtOptions e purpose (decode jwt token)),
        verifyWithKeystore jwt keystore token (build_jwtOptions e purpose (decode jwt token))]"
  by (simp add: verifyTokenAndReturnPayloadAndKid_def Let_def)


text \<open>Key selection and the reverse lookup of the signing key's identifier.\<close>

lemma find_first:
  "find P xs = Some x \<Longrightarrow> \<exists>pre post. xs = pre @ x # post \<and> P x \<and> (\<forall>y \<in> set pre. \<not> P y)"
proof (induction xs)
  case Nil
  then show ?case by simp
next
  case (Cons a xs)
  show ?case
  proof (cases "P a")
    case True
    then have "a = x" using Cons.prems by simp
    then have "a # xs = [] @ x # xs \<and> P x \<and> (\<forall>y \<in> set []. \<not> P y)"
      using True by simp
    then show ?thesis by blast
  next
    case False
    then have "find P xs = Some x" using Cons.prems by simp
    then obtain pre post where "xs = pre @ x # post" "P x" "\<forall>y \<in> set pre. \<not> P y"
      using Cons.IH by blast
    then have "a # xs = (a # pre) @ x # post \<and> P x \<and> (\<forall>y \<in> set (a # pre). \<not> P y)"
      using False by simp
    then show ?thesis by blast
  qed
qed

lemma js_get_entry:
  assumes "k \<in> set (map fst keystore)"
  shows "js_get keystore k = map_option Material (map_of keystore k) \<and> map_of keystore k \<noteq> None"
proof -
  have "map_of keystore k \<noteq> None"
    using assms by (simp add: map_of_eq_None_iff)
  then show ?thesis
    by (auto simp: js_get_def)
qed

lemma signingKid_material:
  "signingKid keystore (Some (Material key))
   = find (\<lambda>k. map_of keystore k = Some key) (map fst keystore)"
proof -
  have "(js_get keystore k = Some (Material key)) = (map_of keystore k = Some key)"
    if "k \<in> set (map fst keystore)" for k
    using js_get_entry [OF that] by auto
  then show ?thesis
    unfolding signingKid_def by (intro find_cong) auto
qed

lemma signingKid_none: "signingKid keystore None = None"
proof -
  have "js_get keystore k \<noteq> None" if "k \<in> set (map fst keystore)" for k
    using js_get_entry [OF that] by auto
  then show ?thesis
    by (auto simp: signingKid_def find_None_iff)
qed

lemma signingKid_exists:
  assumes "map_of keystore k = Some key"
  shows "\<exists>K. signingKid keystore (Some (Material key)) = Some K"
proof -
  have "k \<in> set (map fst keystore)"
    using assms by (metis map_of_eq_None_iff option.distinct(1) set_map)
  then have "find (\<lambda>k. map_of keystore k = Some key) (map fst keystore) \<noteq> None"
    using assms by (auto simp: find_None_iff)
  then show ?thesis
    by (auto simp: signingKid_material)
qed

lemma signingKid_first:
  assumes "signingKid keystore (Some (Material key)) = Some K"
  shows "map_of keystore K = Some key
       \<and> (\<exists>pre post. map fst keystore = pre @ K # post
            \<and> (\<forall>K' \<in> set pre. map_of keystore K' \<noteq> Some key))"
  using find_first [OF assms [unfolded signingKid_material]] by blast

lemma js_or_material:
  "js_or (map_option Material a) b
   = (case nonempty a of None \<Rightarrow> b | Some key \<Rightarrow> Some (Material key))"
  by (cases a) (auto simp: js_or_def nonempty_def)

lemma js_get_first:
  "js_get keystore (propertyKey (firstKey keystore))
   = (case keystore of [] \<Rightarrow> None | (k, key) # entries \<Rightarrow> Some (Material key))"
  by (cases keystore) (auto simp: firstKey_def propertyKey_def js_get_def object_prototype_def)

lemma js_get_default: "js_get keystore ''default'' = map_option Material (map_of keystore ''default'')"
  by (simp add: js_get_def object_prototype_def split: option.splits)

lemma js_get_requested:
  assumes "requested = None \<longrightarrow> map_of keystore ''undefined'' = None"
      and "\<forall>k. requested = Some k \<and> map_of keystore k = None \<longrightarrow> k \<notin> set object_prototype"
  shows "js_get keystore (propertyKey requested)
         = map_option Material (case requested of None \<Rightarrow> None | Some k \<Rightarrow> map_of keystore k)"
proof (cases requested)
  case None
  then show ?thesis
    using assms(1) by (simp add: propertyKey_def js_get_def object_prototype_def)
next
  case (Some k)
  then show ?thesis
    using assms(2) by (auto simp: propertyKey_def js_get_def split: option.splits)
qed

lemma signingKey_priority:
  assumes "requested = None \<longrightarrow> map_of keystore ''undefined'' = None"
      and "\<forall>k. requested = Some k \<and> map_of keystore k = None \<longrightarrow> k \<notin> set object_prototype"
  shows "signingKey keystore requested = map_option Material (priority_select keystore requested)"
proof -
  have f: "js_or (map_option Material (map_of keystore ''default''))
             (js_get keystore (propertyKey (firstKey keystore)))
           = map_option Material (priority_fallback keystore)"
    by (simp add: js_or_material js_get_first priority_fallback_def split: option.splits list.splits)
  have "signingKey keystore requested
        = js_or (map_option Material (case requested of None \<Rightarrow> None | Some k \<Rightarrow> map_of keystore k))
            (map_option Material (priority_fallback keystore))"
    by (simp only: signingKey_def js_get_requested [OF assms] js_get_default f)
  then show ?thesis
  proof (cases requested)
    case None
    then show ?thesis
      using \<open>signingKey keystore requested = _\<close> by (simp add: js_or_def priority_select_def)
  next
    case (Some k)
    then show ?thesis
      using \<open>signingKey keystore requested = _\<close>
      by (simp add: js_or_material priority_select_def split: option.splits)
  qed
qed

text \<open>
  The two lookups that the priority order does not describe: with no requested id an
  entry named \<^verbatim>\<open>undefined\<close> is selected, and a requested id that names an inherited
  member and no entry selects that member, for which no \<^verbatim>\<open>kid\<close> is found.
\<close>

lemma signingKey_undefined_entry:
  assumes "map_of keystore ''undefined'' = Some key" and "key \<noteq> []"
  shows "signingKey keystore None = Some (Material key)"
  using assms by (simp add: signingKey_def propertyKey_def js_get_def js_or_def)

lemma signingKey_inherited:
  assumes "map_of keystore k = None" and "k \<in> set object_prototype"
  shows "signingKey keystore (Some k) = Some (Inherited k)"
    and "signingKid keystore (Some (Inherited k)) = None"
proof -
  show "signingKey keystore (Some k) = Some (Inherited k)"
    using assms by (simp add: signingKey_def propertyKey_def js_get_def js_or_def)
  have "js_get keystore k' \<noteq> Some (Inherited k)" if "k' \<in> set (map fst keystore)" for k'
    using js_get_entry [OF that] by auto
  then show "signingKid keystore (Some (Inherited k)) = None"
    by (auto simp: signingKid_def find_None_iff)
qed

lemma priority_fallback_Some:
  assumes "priority_fallback keystore = Some key"
  shows "\<exists>k. map_of keystore k = Some key"
proof (cases "nonempty (map_of keystore ''default'')")
  case (Some d)
  then have "map_of keystore ''default'' = Some key"
    using assms by (auto simp: priority_fallback_def nonempty_def split: option.splits if_splits)
  then show ?thesis ..
next
  case None
  then obtain k entries where "keystore = (k, key) # entries"
    using assms by (auto simp: priority_fallback_def split: list.splits)
  then have "map_of keystore k = Some key"
    by simp
  then show ?thesis ..
qed

lemma priority_select_Some:
  assumes "priority_select keystore requested = Some key"
  shows "\<exists>k. map_of keystore k = Some key"
proof (cases requested)
  case None
  then show ?thesis
    using assms priority_fallback_Some by (simp add: priority_select_def)
next
  case (Some k)
  show ?thesis
  proof (cases "nonempty (map_of keystore k)")
    case None
    then show ?thesis
      using assms Some priority_fallback_Some by (simp add: priority_select_def)
  next
    case (Some key')
    then have "map_of keystore k = Some key"
      using assms \<open>requested = Some k\<close>
      by (auto simp: priority_select_def nonempty_def split: option.splits if_splits)
    then show ?thesis ..
  qed
qed

lemma undefined_not_inherited: "''undefined'' \<notin> set object_prototype"
  by (simp add: object_prototype_def)

lemma js_get_not_inherited:
  assumes "map_of keystore k = None \<longrightarrow> k \<notin> set object_prototype"
  shows "js_get keystore k = map_option Material (map_of keystore k)"
  using assms by (simp add: js_get_def split: option.splits)

lemma signingKey_own:
  assumes "keystore \<noteq> []" and "\<forall>entry \<in> set keystore. snd entry \<noteq> []"
      and "\<forall>k. requested = Some k \<and> map_of keystore k = None \<longrightarrow> k \<notin> set object_prototype"
  shows "\<exists>k key. signingKey keystore requested = Some (Material key) \<and> key \<noteq> []
           \<and> map_of keystore k = Some key"
proof -
  obtain k0 key0 entries where ks: "keystore = (k0, key0) # entries"
    using assms(1) by (cases keystore) auto
  have ne: "key \<noteq> []" if "map_of keystore k = Some key" for k key
    using map_of_SomeD [OF that] assms(2) by force
  have first: "js_get keystore (propertyKey (firstKey keystore)) = Some (Material key0)"
    and first_own: "map_of keystore k0 = Some key0"
    by (simp_all add: ks js_get_first)
  have "map_of keystore (propertyKey requested) = None
          \<longrightarrow> propertyKey requested \<notin> set object_prototype"
    using assms(3) undefined_not_inherited by (cases requested) (simp_all add: propertyKey_def)
  then have req: "js_get keystore (propertyKey requested)
                  = map_option Material (map_of keystore (propertyKey requested))"
    by (rule js_get_not_inherited)
  have sk: "signingKey keystore requested
            = (case nonempty (map_of keystore (propertyKey requested)) of
                 Some key \<Rightarrow> Some (Material key)
               | None \<Rightarrow>
                   (case nonempty (map_of keystore ''default'') of
                      Some key \<Rightarrow> Some (Material key)
                    | None \<Rightarrow> Some (Material key0)))"
    by (simp only: signingKey_def req js_get_default first js_or_material)
  show ?thesis
  proof (cases "nonempty (map_of keystore (propertyKey requested))")
    case (Some key)
    then have "map_of keystore (propertyKey requested) = Some key"
      by (auto simp: nonempty_def split: option.splits if_splits)
    then show ?thesis
      using sk Some ne by auto
  next
    case None
    show ?thesis
    proof (cases "nonempty (map_of keystore ''default'')")
      case (Some key)
      then have "map_of keystore ''default'' = Some key"
        by (auto simp: nonempty_def split: option.splits if_splits)
      then show ?thesis
        using sk None Some ne by auto
    next
      case None
      then show ?thesis
        using sk \<open>nonempty (map_of keystore (propertyKey requested)) = None\<close> first_own ne
        by auto
    qed
  qed
qed

section \<open>Token extraction: the query parameter and the Authorization header\<close>

text \<open>
  Claim C10. When a request carries a non-empty \<^verbatim>\<open>token\<close> query parameter, token
  extraction returns that token whatever the Authorization header is (absent, well-formed
  or malformed): the header is not inspected. This holds for \<^verbatim>\<open>extractToken\<close> and
  for the legacy \<^verbatim>\<open>_getToken\<close>, and neither middleware then passes a
  \<open>MalformedAuthorizationHeader\<close> to \<^verbatim>\<open>next\<close>, whatever the policy.
\<close>

theorem extractToken_query_first:
  assumes "query_token req = Some t" and "t \<noteq> []"
  shows "extractToken (req\<lparr>authorization := h\<rparr>) = Inr (Some t)
       \<and> getToken (req\<lparr>authorization := h\<rparr>) = Inr t
       \<and> snd (snd (authMiddleware jwt e keystore purpose isRequired (req\<lparr>authorization := h\<rparr>) loc))
           \<noteq> Some MalformedAuthorizationHeader
       \<and> snd (snd (legacy_authMiddleware jwt e keystore (req\<lparr>authorization := h\<rparr>) lloc))
           \<noteq> Some MalformedAuthorizationHeader"
proof -
  have x: "extractToken (req\<lparr>authorization := h\<rparr>) = Inr (Some t)"
    using assms by (simp add: extractToken_def nonempty_def)
  have g: "getToken (req\<lparr>authorization := h\<rparr>) = Inr t"
    using assms by (simp add: getToken_def nonempty_def)
  have m: "snd (snd (authMiddleware jwt e keystore purpose isRequired (req\<lparr>authorization := h\<rparr>) loc))
           \<noteq> Some MalformedAuthorizationHeader"
    using verifyTokenAndReturnKid_error_kinds [of jwt e keystore purpose t] assms(2)
    by (auto simp: authMiddleware_def x nonempty_def Let_def split: prod.splits sum.splits)
  have l: "snd (snd (legacy_authMiddleware jwt e keystore (req\<lparr>authorization := h\<rparr>) lloc))
           \<noteq> Some MalformedAuthorizationHeader"
    using legacy_verifyToken_error_kinds [of jwt e keystore t]
    by (auto simp: legacy_authMiddleware_def g split: prod.splits sum.splits)
  show ?thesis
    using x g m l by simp
qed

text \<open>The theorem at a request with a query token and the header \<^verbatim>\<open>Basic abc\<close>.\<close>

theorem extractToken_query_first_witness:
  "extractToken \<lparr>query_token = Some ''good'', authorization = Some ''Basic abc''\<rparr> = Inr (Some ''good'')
   \<and> getToken \<lparr>query_token = Some ''good'', authorization = Some ''Basic abc''\<rparr> = Inr ''good''
   \<and> snd (snd (authMiddleware (wire_jwt 1000) env0 [(''k1'', ''secret'')] ''local'' True
        \<lparr>query_token = Some ''good'', authorization = Some ''Basic abc''\<rparr> locals0))
         \<noteq> Some MalformedAuthorizationHeader
   \<and> snd (snd (legacy_authMiddleware (wire_jwt 1000) env0 [(''k1'', ''secret'')]
        \<lparr>query_token = Some ''good'', authorization = Some ''Basic abc''\<rparr> legacy_locals0))
         \<noteq> Some MalformedAuthorizationHeader"
proof -
  have q: "query_token \<lparr>query_token = Some ''good'', authorization = None\<rparr> = Some ''good''"
    by simp
  have ne: "''good'' \<noteq> []"
    by simp
  show ?thesis
    using extractToken_query_first [OF q ne, of "Some ''Basic abc''" "wire_jwt 1000" env0
        "[(''k1'', ''secret'')]" "''local''" True locals0 legacy_locals0]
    by simp
qed

text \<open>
  Claim C8, as stated, promises \<open>MalformedAuthorizationHeader\<close> for every request whose
  Authorization header is malformed. A request that also carries a query token is not
  rejected: here the header is \<^verbatim>\<open>Bearer\<close> without a credential, and extraction
  returns the query token.
\<close>

theorem malformed_header_counterexample:
  "extractToken \<lparr>query_token = Some ''forged'', authorization = Some ''Bearer''\<rparr> = Inr (Some ''forged'')"
  by (simp add: extractToken_def nonempty_def)

text \<open>
  Claim C8, amended. For every request with no non-empty \<^verbatim>\<open>token\<close> query parameter
  whose Authorization header is non-empty and does not split at spaces into exactly
  \<^verbatim>\<open>Bearer\<close> and one credential (wrong scheme or wrong arity), token extraction fails
  with \<open>MalformedAuthorizationHeader\<close>, in both modules; the middleware of
  \<^verbatim>\<open>src/auth.js\<close> hands that error to \<^verbatim>\<open>next\<close> for either value of
  \<^verbatim>\<open>isRequired\<close>, without calling the verifier and without touching
  \<^verbatim>\<open>res.locals\<close>, and so does the legacy middleware.
\<close>

theorem malformed_header_rejected:
  assumes "nonempty (query_token req) = None"
      and "authorization req = Some h" and "h \<noteq> []"
      and "length (split_sp h) \<noteq> 2 \<or> hd (split_sp h) \<noteq> ''Bearer''"
  shows "extractToken req = Inl MalformedAuthorizationHeader
       \<and> getToken req = Inl MalformedAuthorizationHeader
       \<and> authMiddleware jwt e keystore purpose isRequired req loc
           = ([], loc, Some MalformedAuthorizationHeader)
       \<and> legacy_authMiddleware jwt e keystore req lloc
           = ([], lloc, Some MalformedAuthorizationHeader)"
proof -
  have h: "nonempty (authorization req) = Some h"
    using assms(2,3) by (simp add: nonempty_def)
  have parts:
    "(case split_sp h of
        [scheme, credentials] \<Rightarrow>
          if scheme = ''Bearer'' then Inr (f credentials) else Inl MalformedAuthorizationHeader
      | _ \<Rightarrow> Inl MalformedAuthorizationHeader) = Inl MalformedAuthorizationHeader" for f :: "string \<Rightarrow> 'a"
    using assms(4) by (auto split: list.splits)
  have x: "extractToken req = Inl MalformedAuthorizationHeader"
    unfolding extractToken_def using assms(1) h parts [of Some] by simp
  have g: "getToken req = Inl MalformedAuthorizationHeader"
    unfolding getToken_def using assms(1) h parts [of "\<lambda>c. c"] by simp
  show ?thesis
    using x g by (simp add: authMiddleware_def legacy_authMiddleware_def)
qed

text \<open>
  The theorem at \<^verbatim>\<open>Authorization: Basic abc\<close> with auth not required, and at
  \<^verbatim>\<open>Authorization: Bearer\<close> with auth required.
\<close>

theorem malformed_header_rejected_witness:
  "authMiddleware (wire_jwt 1000) env0 [(''k1'', ''secret'')] ''local'' False
     \<lparr>query_token = None, authorization = Some ''Basic abc''\<rparr> locals0
     = ([], locals0, Some MalformedAuthorizationHeader)
   \<and> authMiddleware (wire_jwt 1000) env0 [(''k1'', ''secret'')] ''local'' True
     \<lparr>query_token = None, authorization = Some ''Bearer''\<rparr> locals0
     = ([], locals0, Some MalformedAuthorizationHeader)
   \<and> extractToken \<lparr>query_token = None, authorization = Some ''Basic abc''\<rparr>
     = Inl MalformedAuthorizationHeader
   \<and> getToken \<lparr>query_token = Some [], authorization = Some ''Bearer''\<rparr>
     = Inl MalformedAuthorizationHeader"
proof -
  have basic: "length (split_sp ''Basic abc'') \<noteq> 2 \<or> hd (split_sp ''Basic abc'') \<noteq> ''Bearer''"
    by simp
  have bearer: "length (split_sp ''Bearer'') \<noteq> 2 \<or> hd (split_sp ''Bearer'') \<noteq> ''Bearer''"
    by simp
  have a: "nonempty (query_token \<lparr>query_token = None, authorization = Some ''Basic abc''\<rparr>) = None"
          "authorization \<lparr>query_token = None, authorization = Some ''Basic abc''\<rparr> = Some ''Basic abc''"
          "''Basic abc'' \<noteq> []"
    by (simp_all add: nonempty_def)
  have b: "nonempty (query_token \<lparr>query_token = None, authorization = Some ''Bearer''\<rparr>) = None"
          "authorization \<lparr>query_token = None, authorization = Some ''Bearer''\<rparr> = Some ''Bearer''"
          "''Bearer'' \<noteq> []"
    by (simp_all add: nonempty_def)
  have c: "nonempty (query_token \<lparr>query_token = Some [], authorization = Some ''Bearer''\<rparr>) = None"
          "authorization \<lparr>query_token = Some [], authorization = Some ''Bearer''\<rparr> = Some ''Bearer''"
    by (simp_all add: nonempty_def)
  show ?thesis
    using malformed_header_rejected [OF a basic, of "wire_jwt 1000" env0 "[(''k1'', ''secret'')]" "''local''" False locals0]
          malformed_header_rejected [OF b bearer, of "wire_jwt 1000" env0 "[(''k1'', ''secret'')]" "''local''" True locals0]
          malformed_header_rejected [OF c b(3) bearer]
    by simp
qed

section \<open>The required-auth policy\<close>

text \<open>
  Claim C9, as stated, lets every value of \<^verbatim>\<open>REQUIRE_AUTH\<close> other than
  \<^verbatim>\<open>false\<close> and \<^verbatim>\<open>0\<close> mean true. The source lower-cases the value before
  comparing it: \<^verbatim>\<open>FALSE\<close> means false, here in a production environment.
\<close>

theorem required_counterexample:
  "required \<lparr>MAX_JWT_AGE = None, REQUIRE_AUTH = Some ''FALSE'', NODE_ENV = Some ''production''\<rparr> = False"
  by (simp add: required_def nonempty_def toLowerCase_def lower_char_def)

text \<open>
  Claim C9, amended. In \<^verbatim>\<open>src/auth.js\<close>, when \<^verbatim>\<open>REQUIRE_AUTH\<close> is set to a
  non-empty value \<open>v\<close>, the policy is false when \<open>v\<close> is \<^verbatim>\<open>false\<close> in any letter
  case or is \<^verbatim>\<open>0\<close>, and true otherwise, whatever \<^verbatim>\<open>NODE_ENV\<close> is; when the flag
  is unset or empty, the policy is true exactly when \<^verbatim>\<open>NODE_ENV\<close> is
  \<^verbatim>\<open>production\<close>. The legacy module has no precedence: its policy is true exactly
  when \<^verbatim>\<open>NODE_ENV\<close> is \<^verbatim>\<open>production\<close> or \<^verbatim>\<open>REQUIRE_AUTH\<close> is \<^verbatim>\<open>true\<close>.
\<close>

theorem required_policy:
  "(REQUIRE_AUTH e = Some v \<and> v \<noteq> [] \<longrightarrow>
      required e = (toLowerCase v \<noteq> ''false'' \<and> v \<noteq> ''0''))
   \<and> (nonempty (REQUIRE_AUTH e) = None \<longrightarrow> required e = (NODE_ENV e = Some ''production''))
   \<and> legacy_required e = (NODE_ENV e = Some ''production'' \<or> REQUIRE_AUTH e = Some ''true'')"
  by (simp add: required_def legacy_required_def nonempty_def)

text \<open>
  The theorem at the flag values \<^verbatim>\<open>false\<close>, \<^verbatim>\<open>0\<close> and \<^verbatim>\<open>yes\<close>, at an unset
  and at an empty flag; the last conjunct is the legacy policy in production with the
  flag \<^verbatim>\<open>false\<close>.
\<close>

theorem required_policy_witness:
  "\<not> required \<lparr>MAX_JWT_AGE = None, REQUIRE_AUTH = Some ''false'', NODE_ENV = Some ''production''\<rparr>
   \<and> \<not> required \<lparr>MAX_JWT_AGE = None, REQUIRE_AUTH = Some ''0'', NODE_ENV = Some ''production''\<rparr>
   \<and> required \<lparr>MAX_JWT_AGE = None, REQUIRE_AUTH = Some ''yes'', NODE_ENV = Some ''test''\<rparr>
   \<and> required \<lparr>MAX_JWT_AGE = None, REQUIRE_AUTH = None, NODE_ENV = Some ''production''\<rparr>
   \<and> \<not> required \<lparr>MAX_JWT_AGE = None, REQUIRE_AUTH = Some [], NODE_ENV = Some ''test''\<rparr>
   \<and> legacy_required \<lparr>MAX_JWT_AGE = None, REQUIRE_AUTH = Some ''false'', NODE_ENV = Some ''production''\<rparr>"
  using required_policy [of "\<lparr>MAX_JWT_AGE = None, REQUIRE_AUTH = Some ''false'', NODE_ENV = Some ''production''\<rparr>" "''false''"]
        required_policy [of "\<lparr>MAX_JWT_AGE = None, REQUIRE_AUTH = Some ''0'', NODE_ENV = Some ''production''\<rparr>" "''0''"]
        required_policy [of "\<lparr>MAX_JWT_AGE = None, REQUIRE_AUTH = Some ''yes'', NODE_ENV = Some ''test''\<rparr>" "''yes''"]
        required_policy [of "\<lparr>MAX_JWT_AGE = None, REQUIRE_AUTH = None, NODE_ENV = Some ''production''\<rparr>"]
        required_policy [of "\<lparr>MAX_JWT_AGE = None, REQUIRE_AUTH = Some [], NODE_ENV = Some ''test''\<rparr>"]
  by (simp add: nonempty_def toLowerCase_def lower_char_def)

section \<open>The maximum-age constraint\<close>

text \<open>
  Claim C4, as stated, applies the maximum age exactly when the payload carries no
  expiration claim. The legacy \<^verbatim>\<open>verifyToken\<close> builds its options before it looks at
  the token: a token with an \<^verbatim>\<open>exp\<close> claim is verified under
  \<^verbatim>\<open>maxAge: "5s"\<close> all the same.
\<close>

theorem maxAge_counterexample:
  "fst (legacy_verifyToken (ref_jwt 1000) env0 [(''k1'', ''secret'')]
          (Signed ''HS256'' (Some ''k1'') (JObj [(''exp'', JNum 2000)]) ''secret''))
   = [(''k1'', \<lparr>algorithms = [''HS256''], maxAge = Some ''5s''\<rparr>)]"
  by (simp add: legacy_verifyToken_def legacy_options_def legacy_maxAge_def env0_def ref_jwt_def
        verifyWithKid_def verifyWithDefault_def nonempty_def js_get_def truthy_key_def object_prototype_def)

text \<open>
  Claim C4, amended. In \<^verbatim>\<open>src/auth.js\<close>, every call of \<^verbatim>\<open>jwt.verify\<close> for a
  token carries \<^verbatim>\<open>maxAge = process.env.MAX_JWT_AGE\<close> when the token decodes to a
  truthy payload without an \<^verbatim>\<open>exp\<close> claim, and no \<^verbatim>\<open>maxAge\<close> otherwise (an
  \<^verbatim>\<open>exp\<close> claim is present, or the token does not decode). In the legacy module
  every call carries \<^verbatim>\<open>maxAge\<close>, the value of \<^verbatim>\<open>MAX_JWT_AGE\<close> or \<^verbatim>\<open>5s\<close>
  when that is unset or empty, whether or not the payload has an \<^verbatim>\<open>exp\<close> claim.
\<close>

theorem maxAge_constraint:
  "(\<forall>c \<in> set (fst (verifyTokenAndReturnPayloadAndKid jwt e keystore purpose token)).
      maxAge (snd c) =
        (case decode jwt token of
           None \<Rightarrow> None
         | Some d \<Rightarrow>
             if truthy (payload d) \<and> js_prop (payload d) ''exp'' = JUndefined
             then MAX_JWT_AGE e else None))
   \<and> (\<forall>c \<in> set (fst (legacy_verifyToken jwt e keystore token)).
      maxAge (snd c) =
        Some (case nonempty (MAX_JWT_AGE e) of None \<Rightarrow> ''5s'' | Some a \<Rightarrow> a))"
proof -
  have a: "snd c = build_jwtOptions e purpose (decode jwt token)"
    if "c \<in> set (fst (verifyTokenAndReturnPayloadAndKid jwt e keystore purpose token))" for c
    using that engine_calls [of c jwt keystore token "decode jwt token" "build_jwtOptions e purpose (decode jwt token)"]
    by (simp add: verifyTokenAndReturnPayloadAndKid_def Let_def)
  have b: "snd c = legacy_options e"
    if "c \<in> set (fst (legacy_verifyToken jwt e keystore token))" for c
    using that engine_calls [of c jwt keystore token "decode jwt token" "legacy_options e"]
    by (auto simp: legacy_verifyToken_def Let_def split: prod.splits sum.splits)
  have m: "maxAge (legacy_options e) =
             Some (case nonempty (MAX_JWT_AGE e) of None \<Rightarrow> ''5s'' | Some a \<Rightarrow> a)"
    by (simp add: legacy_options_def legacy_maxAge_def)
  show ?thesis
    using a b m by (auto simp: build_jwtOptions_def split: option.splits)
qed

text \<open>
  The theorem with \<^verbatim>\<open>MAX_JWT_AGE=1h\<close>: a token without and a token with an
  \<^verbatim>\<open>exp\<close> claim in \<^verbatim>\<open>src/auth.js\<close>, and a token with one in the legacy module.
\<close>

theorem maxAge_constraint_witness:
  "fst (verifyTokenAndReturnPayloadAndKid (ref_jwt 1000) (env0\<lparr>MAX_JWT_AGE := Some ''1h''\<rparr>)
          [(''k1'', ''secret'')] ''local''
          (Signed ''HS512'' (Some ''k1'') (JObj [(''sub'', JStr ''alice'')]) ''secret''))
     = [(''k1'', \<lparr>algorithms = [''HS512''], maxAge = Some ''1h''\<rparr>)]
   \<and> fst (verifyTokenAndReturnPayloadAndKid (ref_jwt 1000) (env0\<lparr>MAX_JWT_AGE := Some ''1h''\<rparr>)
          [(''k1'', ''secret'')] ''local''
          (Signed ''HS512'' (Some ''k1'') (JObj [(''exp'', JNum 2000)]) ''secret''))
     = [(''k1'', \<lparr>algorithms = [''HS512''], maxAge = None\<rparr>)]
   \<and> fst (legacy_verifyToken (ref_jwt 1000) (env0\<lparr>MAX_JWT_AGE := Some ''1h''\<rparr>)
          [(''k1'', ''secret'')]
          (Signed ''HS256'' (Some ''k1'') (JObj [(''exp'', JNum 2000)]) ''secret''))
     = [(''k1'', \<lparr>algorithms = [''HS256''], maxAge = Some ''1h''\<rparr>)]"
  using maxAge_constraint [of "ref_jwt 1000" "env0\<lparr>MAX_JWT_AGE := Some ''1h''\<rparr>"
          "[(''k1'', ''secret'')]" "''local''"
          "Signed ''HS512'' (Some ''k1'') (JObj [(''sub'', JStr ''alice'')]) ''secret''"]
        maxAge_constraint [of "ref_jwt 1000" "env0\<lparr>MAX_JWT_AGE := Some ''1h''\<rparr>"
          "[(''k1'', ''secret'')]" "''local''"
          "Signed ''HS512'' (Some ''k1'') (JObj [(''exp'', JNum 2000)]) ''secret''"]
        maxAge_constraint [of "ref_jwt 1000" "env0\<lparr>MAX_JWT_AGE := Some ''1h''\<rparr>"
          "[(''k1'', ''secret'')]" "''local''"
          "Signed ''HS256'' (Some ''k1'') (JObj [(''exp'', JNum 2000)]) ''secret''"]
  by (simp add: verifyTokenAndReturnPayloadAndKid_def legacy_verifyToken_def legacy_options_def
        legacy_maxAge_def env0_def ref_jwt_def build_jwtOptions_def algorithms_for_def
        verifyWithKid_def verifyWithDefault_def nonempty_def js_get_def truthy_key_def object_prototype_def)

section \<open>The middleware\<close>

text \<open>
  Claim C5, as stated, has the middleware verify every token that is present. The
  middleware of \<^verbatim>\<open>src/auth.js\<close> calls the verifier only under
  \<^verbatim>\<open>if (isRequired)\<close>. With the default options outside production the policy is
  false: a token forged with a guessed key is never handed to \<^verbatim>\<open>jwt.verify\<close>, its
  decoded payload is attached to \<^verbatim>\<open>res.locals\<close>, and the request proceeds.
\<close>

theorem middleware_counterexample:
  "buildMiddleware (wire_jwt 1000) env0 [(''k1'', ''secret'')] None None
     \<lparr>query_token = None, authorization = Some ''Bearer forged''\<rparr> locals0
   = ([],
      \<lparr>JWTPayload = JObj [(''sub'', JStr ''admin''), (''exp'', JNum 2000)],
       JWTVerifyingKid = None\<rparr>,
      None)"
  by (simp add: buildMiddleware_def authMiddleware_def extractToken_def required_def env0_def
        locals0_def nonempty_def decode_payload_def wire_jwt_def wire_def)

text \<open>
  Claim C5, amended. In \<^verbatim>\<open>src/auth.js\<close>, for every request carrying a non-empty
  token the middleware attaches the payload of \<^verbatim>\<open>jwt.decode(token)\<close>, which is not
  verified, as \<^verbatim>\<open>JWTPayload\<close>. It invokes the verification engine only when
  \<^verbatim>\<open>isRequired\<close> holds: on success it attaches the matched key id as
  \<^verbatim>\<open>JWTVerifyingKid\<close> and proceeds, on failure it hands the error to \<^verbatim>\<open>next\<close>;
  when \<^verbatim>\<open>isRequired\<close> is false it proceeds without verifying. With no token, the
  request proceeds with nothing attached when \<^verbatim>\<open>isRequired\<close> is false and fails with
  \<open>MissingToken\<close> when it is true. The legacy middleware verifies every token it
  extracts and attaches the verified payload on success; it rejects a request without a
  token with \<open>MissingToken\<close>, whatever the policy.
\<close>

theorem middleware_behaviour:
  "(extractToken req = Inr (Some t) \<and> t \<noteq> [] \<and> \<not> isRequired \<longrightarrow>
      authMiddleware jwt e keystore purpose isRequired req loc
        = ([], loc\<lparr>JWTPayload := decode_payload jwt t\<rparr>, None))
   \<and> (extractToken req = Inr (Some t) \<and> t \<noteq> [] \<and> isRequired
        \<and> verifyTokenAndReturnPayloadAndKid jwt e keystore purpose t = (calls, Inr (p, k)) \<longrightarrow>
      authMiddleware jwt e keystore purpose isRequired req loc
        = (calls, loc\<lparr>JWTPayload := decode_payload jwt t, JWTVerifyingKid := k\<rparr>, None))
   \<and> (extractToken req = Inr (Some t) \<and> t \<noteq> [] \<and> isRequired
        \<and> verifyTokenAndReturnPayloadAndKid jwt e keystore purpose t = (calls, Inl err) \<longrightarrow>
      authMiddleware jwt e keystore purpose isRequired req loc
        = (calls, loc\<lparr>JWTPayload := decode_payload jwt t\<rparr>, Some err))
   \<and> (extractToken req = Inr tok \<and> nonempty tok = None \<longrightarrow>
      authMiddleware jwt e keystore purpose isRequired req loc
        = ([], loc, if isRequired then Some MissingToken else None))
   \<and> (getToken req = Inr t \<and> legacy_verifyToken jwt e keystore t = (calls, Inr p) \<longrightarrow>
      legacy_authMiddleware jwt e keystore req lloc = (calls, lloc\<lparr>locals_payload := p\<rparr>, None))
   \<and> (getToken req = Inr t \<and> legacy_verifyToken jwt e keystore t = (calls, Inl err) \<longrightarrow>
      legacy_authMiddleware jwt e keystore req lloc = (calls, lloc, Some err))
   \<and> (nonempty (query_token req) = None \<and> nonempty (authorization req) = None \<longrightarrow>
      legacy_authMiddleware jwt e keystore req lloc = ([], lloc, Some MissingToken))"
  by (simp add: authMiddleware_def legacy_authMiddleware_def verifyTokenAndReturnKid_def
        getToken_def nonempty_def Let_def)

text \<open>
  The theorem at a well-signed token with and without required auth, at a forged token
  with required auth, at a request without a token under both policies, and at the legacy
  middleware with a well-signed token, a forged one and none.
\<close>

theorem middleware_behaviour_witness:
  "authMiddleware (wire_jwt 1000) env0 [(''k1'', ''secret'')] ''local'' False
     \<lparr>query_token = None, authorization = Some ''Bearer good''\<rparr> locals0
     = ([], \<lparr>JWTPayload = JObj [(''sub'', JStr ''alice''), (''exp'', JNum 2000)],
              JWTVerifyingKid = None\<rparr>, None)
   \<and> authMiddleware (wire_jwt 1000) env0 [(''k1'', ''secret'')] ''local'' True
     \<lparr>query_token = None, authorization = Some ''Bearer good''\<rparr> locals0
     = ([(''k1'', \<lparr>algorithms = [''HS512''], maxAge = None\<rparr>)],
        \<lparr>JWTPayload = JObj [(''sub'', JStr ''alice''), (''exp'', JNum 2000)],
         JWTVerifyingKid = Some ''k1''\<rparr>, None)
   \<and> authMiddleware (wire_jwt 1000) env0 [(''k1'', ''secret'')] ''local'' True
     \<lparr>query_token = Some ''forged'', authorization = None\<rparr> locals0
     = ([(''k1'', \<lparr>algorithms = [''HS512''], maxAge = None\<rparr>),
         (''k1'', \<lparr>algorithms = [''HS512''], maxAge = None\<rparr>)],
        \<lparr>JWTPayload = JObj [(''sub'', JStr ''admin''), (''exp'', JNum 2000)],
         JWTVerifyingKid = None\<rparr>, Some NoMatchingKey)
   \<and> authMiddleware (wire_jwt 1000) env0 [(''k1'', ''secret'')] ''local'' False
     \<lparr>query_token = None, authorization = None\<rparr> locals0
     = ([], locals0, None)
   \<and> authMiddleware (wire_jwt 1000) env0 [(''k1'', ''secret'')] ''local'' True
     \<lparr>query_token = None, authorization = None\<rparr> locals0
     = ([], locals0, Some MissingToken)
   \<and> legacy_authMiddleware (wire_jwt 1000) env0 [(''k1'', ''secret'')]
     \<lparr>query_token = None, authorization = Some ''Bearer good256''\<rparr> legacy_locals0
     = ([(''k1'', \<lparr>algorithms = [''HS256''], maxAge = Some ''5s''\<rparr>)],
        \<lparr>locals_payload = JObj [(''sub'', JStr ''alice''), (''exp'', JNum 2000)]\<rparr>, None)
   \<and> legacy_authMiddleware (wire_jwt 1000) env0 [(''k1'', ''secret'')]
     \<lparr>query_token = Some ''forged'', authorization = None\<rparr> legacy_locals0
     = ([(''k1'', \<lparr>algorithms = [''HS256''], maxAge = Some ''5s''\<rparr>)],
        legacy_locals0, Some (VerificationError ''invalid algorithm''))
   \<and> legacy_authMiddleware (wire_jwt 1000) env0 [(''k1'', ''secret'')]
     \<lparr>query_token = None, authorization = None\<rparr> legacy_locals0
     = ([], legacy_locals0, Some MissingToken)"
proof -
  let ?J = "wire_jwt 1000" and ?ks = "[(''k1'', ''secret'')]"
  let ?hs512 = "\<lparr>algorithms = [''HS512''], maxAge = None\<rparr>"
  let ?hs256 = "\<lparr>algorithms = [''HS256''], maxAge = Some ''5s''\<rparr>"
  let ?alice = "JObj [(''sub'', JStr ''alice''), (''exp'', JNum 2000)]"
  have x_good: "extractToken \<lparr>query_token = None, authorization = Some ''Bearer good''\<rparr> = Inr (Some ''good'')"
    by (simp add: extractToken_def nonempty_def)
  have x_forged: "extractToken \<lparr>query_token = Some ''forged'', authorization = None\<rparr> = Inr (Some ''forged'')"
    by (simp add: extractToken_def nonempty_def)
  have x_none: "extractToken \<lparr>query_token = None, authorization = None\<rparr> = Inr None"
    by (simp add: extractToken_def nonempty_def)
  have g_good: "getToken \<lparr>query_token = None, authorization = Some ''Bearer good256''\<rparr> = Inr ''good256''"
    by (simp add: getToken_def nonempty_def)
  have g_forged: "getToken \<lparr>query_token = Some ''forged'', authorization = None\<rparr> = Inr ''forged''"
    by (simp add: getToken_def nonempty_def)
  have v_good: "verifyTokenAndReturnPayloadAndKid ?J env0 ?ks ''local'' ''good''
                  = ([(''k1'', ?hs512)], Inr (?alice, Some ''k1''))"
    by (simp add: verifyTokenAndReturnPayloadAndKid_def build_jwtOptions_def algorithms_for_def Let_def
          verifyWithKid_def verifyWithDefault_def nonempty_def js_get_def truthy_key_def object_prototype_def wire_jwt_def wire_def env0_def)
  have v_forged: "verifyTokenAndReturnPayloadAndKid ?J env0 ?ks ''local'' ''forged''
                  = ([(''k1'', ?hs512), (''k1'', ?hs512)], Inl NoMatchingKey)"
    by (simp add: verifyTokenAndReturnPayloadAndKid_def build_jwtOptions_def algorithms_for_def Let_def
          verifyWithKid_def verifyWithDefault_def nonempty_def js_get_def truthy_key_def object_prototype_def wire_jwt_def wire_def env0_def)
  have l_good: "legacy_verifyToken ?J env0 ?ks ''good256'' = ([(''k1'', ?hs256)], Inr ?alice)"
    by (simp add: legacy_verifyToken_def legacy_options_def legacy_maxAge_def Let_def
          verifyWithKid_def verifyWithDefault_def nonempty_def js_get_def truthy_key_def object_prototype_def wire_jwt_def wire_def env0_def)
  have l_forged: "legacy_verifyToken ?J env0 ?ks ''forged''
                  = ([(''k1'', ?hs256)], Inl (VerificationError ''invalid algorithm''))"
    by (simp add: legacy_verifyToken_def legacy_options_def legacy_maxAge_def Let_def
          verifyWithKid_def verifyWithDefault_def nonempty_def js_get_def truthy_key_def object_prototype_def wire_jwt_def wire_def env0_def)
  have d_good: "decode_payload ?J ''good'' = ?alice"
    by (simp add: decode_payload_def wire_jwt_def wire_def)
  have d_forged: "decode_payload ?J ''forged'' = JObj [(''sub'', JStr ''admin''), (''exp'', JNum 2000)]"
    by (simp add: decode_payload_def wire_jwt_def wire_def)
  show ?thesis
    using
      middleware_behaviour [where jwt = ?J and e = env0 and keystore = ?ks and purpose = "''local''"
        and isRequired = False and t = "''good''" and loc = locals0
        and req = "\<lparr>query_token = None, authorization = Some ''Bearer good''\<rparr>"]
      middleware_behaviour [where jwt = ?J and e = env0 and keystore = ?ks and purpose = "''local''"
        and isRequired = True and t = "''good''" and loc = locals0
        and calls = "[(''k1'', ?hs512)]" and p = ?alice and k = "Some ''k1''"
        and req = "\<lparr>query_token = None, authorization = Some ''Bearer good''\<rparr>"]
      middleware_behaviour [where jwt = ?J and e = env0 and keystore = ?ks and purpose = "''local''"
        and isRequired = True and t = "''forged''" and loc = locals0
        and calls = "[(''k1'', ?hs512), (''k1'', ?hs512)]" and err = NoMatchingKey
        and req = "\<lparr>query_token = Some ''forged'', authorization = None\<rparr>"]
      middleware_behaviour [where jwt = ?J and e = env0 and keystore = ?ks and purpose = "''local''"
        and isRequired = False and tok = None and loc = locals0 and lloc = legacy_locals0
        and req = "\<lparr>query_token = None, authorization = None\<rparr>"]
      middleware_behaviour [where jwt = ?J and e = env0 and keystore = ?ks and purpose = "''local''"
        and isRequired = True and tok = None and loc = locals0
        and req = "\<lparr>query_token = None, authorization = None\<rparr>"]
      middleware_behaviour [where jwt = ?J and e = env0 and keystore = ?ks
        and t = "''good256''" and lloc = legacy_locals0
        and calls = "[(''k1'', ?hs256)]" and p = ?alice
        and req = "\<lparr>query_token = None, authorization = Some ''Bearer good256''\<rparr>"]
      middleware_behaviour [where jwt = ?J and e = env0 and keystore = ?ks
        and t = "''forged''" and lloc = legacy_locals0
        and calls = "[(''k1'', ?hs256)]" and err = "VerificationError ''invalid algorithm''"
        and req = "\<lparr>query_token = Some ''forged'', authorization = None\<rparr>"]
    by (simp add: x_good x_forged x_none g_good g_forged v_good v_forged l_good l_forged
          d_good d_forged nonempty_def locals0_def)
qed

section \<open>The verification engine\<close>

text \<open>
  Claim C2. Let the header of a token declare the key identifier \<open>K\<close>, let the keystore
  hold key material under \<open>K\<close> (identifier and material non-empty, as every truthy
  string is), and let the purpose be any. If \<^verbatim>\<open>jwt.verify\<close> accepts the token under
  that key, with the options the engine builds, and returns a payload (a truthy value, as
  every claims object is), then the engine succeeds with that payload and the matched key
  id \<open>K\<close>, after this one call of \<^verbatim>\<open>jwt.verify\<close>: nothing is assumed of the other
  entries of the keystore or of what the primitive does with them.
\<close>

theorem kid_priority:
  assumes "decode jwt token = Some d" and "kid (header d) = Some K" and "K \<noteq> []"
      and "map_of keystore K = Some key" and "key \<noteq> []"
      and "verify jwt token (Material key) (build_jwtOptions e purpose (Some d)) = Inr p" and "truthy p"
  shows "verifyTokenAndReturnPayloadAndKid jwt e keystore purpose token
         = ([(K, build_jwtOptions e purpose (Some d))], Inr (p, Some K))"
  unfolding verifyTokenAndReturnPayloadAndKid_unfold assms(1)
  using strategies_kid_success [OF refl assms(2-7)] .

text \<open>
  The theorem at a keystore in which \<^verbatim>\<open>default\<close> and \<^verbatim>\<open>k2\<close>, both enumerated
  before \<^verbatim>\<open>k1\<close>, hold the same material and would verify the token too.
\<close>

theorem kid_priority_witness:
  "verifyTokenAndReturnPayloadAndKid (ref_jwt 1000) env0
     [(''default'', ''secret''), (''k2'', ''secret''), (''k1'', ''secret'')] ''local''
     (Signed ''HS512'' (Some ''k1'') (JObj [(''sub'', JStr ''alice''), (''exp'', JNum 2000)]) ''secret'')
   = ([(''k1'', \<lparr>algorithms = [''HS512''], maxAge = None\<rparr>)],
      Inr (JObj [(''sub'', JStr ''alice''), (''exp'', JNum 2000)], Some ''k1''))
   \<and> verify (ref_jwt 1000)
       (Signed ''HS512'' (Some ''k1'') (JObj [(''sub'', JStr ''alice''), (''exp'', JNum 2000)]) ''secret'')
       (Material ''secret'') \<lparr>algorithms = [''HS512''], maxAge = None\<rparr>
     = Inr (JObj [(''sub'', JStr ''alice''), (''exp'', JNum 2000)])"
proof -
  let ?tok = "Signed ''HS512'' (Some ''k1'') (JObj [(''sub'', JStr ''alice''), (''exp'', JNum 2000)]) ''secret''"
  let ?d = "\<lparr>header = \<lparr>kid = Some ''k1''\<rparr>, payload = JObj [(''sub'', JStr ''alice''), (''exp'', JNum 2000)]\<rparr>"
  let ?ks = "[(''default'', ''secret''), (''k2'', ''secret''), (''k1'', ''secret'')]"
  have opts: "build_jwtOptions env0 ''local'' (Some ?d) = \<lparr>algorithms = [''HS512''], maxAge = None\<rparr>"
    by (simp add: build_jwtOptions_def algorithms_for_def)
  have h1: "decode (ref_jwt 1000) ?tok = Some ?d"
    by (simp add: ref_jwt_def)
  have h2: "kid (header ?d) = Some ''k1''" and h3: "''k1'' \<noteq> []"
    and h4: "map_of ?ks ''k1'' = Some ''secret''" and h5: "''secret'' \<noteq> []"
    by simp_all
  have h6: "verify (ref_jwt 1000) ?tok (Material ''secret'') (build_jwtOptions env0 ''local'' (Some ?d))
            = Inr (JObj [(''sub'', JStr ''alice''), (''exp'', JNum 2000)])"
    by (simp add: opts ref_jwt_def)
  have h7: "truthy (JObj [(''sub'', JStr ''alice''), (''exp'', JNum 2000)])"
    by simp
  show ?thesis
    using kid_priority [OF h1 h2 h3 h4 h5 h6 h7] h6 by (simp add: opts)
qed







section \<open>Token issuance\<close>

text \<open>
  Claim C7, as stated, selects the requested key id whenever the keystore has it, and
  \<^verbatim>\<open>default\<close> otherwise. The source selects with \<^verbatim>\<open>||\<close>, which passes over an entry
  whose key material is empty: a requested, empty \<^verbatim>\<open>a\<close> yields the \<^verbatim>\<open>default\<close> key.
  And with no requested id the source still reads \<^verbatim>\<open>keystore[kid]\<close>, the property
  named \<^verbatim>\<open>undefined\<close>: an entry of that name is selected before \<^verbatim>\<open>default\<close>.
\<close>

theorem key_selection_counterexample:
  "createToken (ref_jwt 1000) [(''a'', []), (''default'', ''d'')]
     (JObj [(''sub'', JStr ''alice'')]) (Some ''a'') None
   = Inr (Signed ''HS512'' (Some ''default'') (JObj [(''sub'', JStr ''alice'')]) ''d'')
   \<and> createToken (ref_jwt 1000) [(''undefined'', ''u''), (''default'', ''d'')]
     (JObj [(''sub'', JStr ''alice'')]) None None
   = Inr (Signed ''HS512'' (Some ''undefined'') (JObj [(''sub'', JStr ''alice'')]) ''u'')"
  by (simp add: createToken_def signingKey_def signingKid_def js_or_def js_get_def
        propertyKey_def firstKey_def object_prototype_def ref_jwt_def Let_def)

text \<open>
  Claim C7, amended. An entry counts as present when its key material is not empty. Let
  the request not be one of the two lookups set apart above: when no key id is
  requested, no entry is named \<^verbatim>\<open>undefined\<close>; a requested id that names no entry is not
  the name of a member every object inherits. Then for every payload and keystore, in
  both modules:
  \<^item> the key handed to \<^verbatim>\<open>jwt.sign\<close> is the one the priority order selects
    (\<open>priority_select\<close>: the requested id if present, else \<^verbatim>\<open>default\<close> if present,
    else the first entry), the \<^verbatim>\<open>kid\<close> placed in the header is \<open>signingKid\<close> of
    that key, and what \<^verbatim>\<open>jwt.sign\<close> throws is returned as \<open>SigningError\<close>
    (conjuncts 1 to 3);
  \<^item> when a key is selected, that \<^verbatim>\<open>kid\<close> is the first identifier, in enumeration
    order, whose material equals the selected key: it is found by value, not taken from
    the request (conjunct 4);
  \<^item> for the empty keystore \<^verbatim>\<open>jwt.sign\<close> is called with an undefined key and an
    undefined \<^verbatim>\<open>kid\<close>, and issuance fails with \<open>SigningError\<close> exactly when that
    call throws (conjuncts 5 and 6), as it does under the reference primitive, which
    refuses a missing key as \<^verbatim>\<open>jsonwebtoken\<close> does (conjuncts 7 and 8).
\<close>

theorem key_selection:
  assumes "requested = None \<longrightarrow> map_of keystore ''undefined'' = None"
      and "\<forall>k. requested = Some k \<and> map_of keystore k = None \<longrightarrow> k \<notin> set object_prototype"
  shows
    "signingKey keystore requested = map_option Material (priority_select keystore requested)
     \<and> createToken jwt keystore p requested alg
       = (case sign jwt p (map_option Material (priority_select keystore requested))
                \<lparr>algorithm = Some (case alg of None \<Rightarrow> ''HS512'' | Some a \<Rightarrow> a),
                 header_kid =
                   signingKid keystore (map_option Material (priority_select keystore requested))\<rparr> of
            Inl m \<Rightarrow> Inl (SigningError m)
          | Inr token \<Rightarrow> Inr token)
     \<and> legacy_createToken jwt keystore p requested
       = (case sign jwt p (map_option Material (priority_select keystore requested))
                \<lparr>algorithm = None,
                 header_kid =
                   signingKid keystore (map_option Material (priority_select keystore requested))\<rparr> of
            Inl m \<Rightarrow> Inl (SigningError m)
          | Inr token \<Rightarrow> Inr token)
     \<and> (\<forall>key. priority_select keystore requested = Some key \<longrightarrow>
          (\<exists>K pre post.
             signingKid keystore (Some (Material key)) = Some K \<and> map_of keystore K = Some key
             \<and> map fst keystore = pre @ K # post
             \<and> (\<forall>K' \<in> set pre. map_of keystore K' \<noteq> Some key)))
     \<and> (keystore = [] \<longrightarrow>
          createToken jwt keystore p requested alg
            = (case sign jwt p None
                     \<lparr>algorithm = Some (case alg of None \<Rightarrow> ''HS512'' | Some a \<Rightarrow> a),
                      header_kid = None\<rparr> of
                 Inl m \<Rightarrow> Inl (SigningError m)
               | Inr token \<Rightarrow> Inr token))
     \<and> (keystore = [] \<longrightarrow>
          legacy_createToken jwt keystore p requested
            = (case sign jwt p None \<lparr>algorithm = None, header_kid = None\<rparr> of
                 Inl m \<Rightarrow> Inl (SigningError m)
               | Inr token \<Rightarrow> Inr token))
     \<and> (keystore = [] \<longrightarrow>
          createToken (ref_jwt now) keystore p requested alg
            = Inl (SigningError ''secretOrPrivateKey must have a value''))
     \<and> (keystore = [] \<longrightarrow>
          legacy_createToken (ref_jwt now) keystore p requested
            = Inl (SigningError ''secretOrPrivateKey must have a value''))"
proof -
  note sel = signingKey_priority [OF assms]
  have c: "createToken jwt keystore p requested alg
       = (case sign jwt p (map_option Material (priority_select keystore requested))
                \<lparr>algorithm = Some (case alg of None \<Rightarrow> ''HS512'' | Some a \<Rightarrow> a),
                 header_kid =
                   signingKid keystore (map_option Material (priority_select keystore requested))\<rparr> of
            Inl m \<Rightarrow> Inl (SigningError m)
          | Inr token \<Rightarrow> Inr token)" for jwt :: "'x jsonwebtoken"
    by (simp add: createToken_def sel Let_def)
  have l: "legacy_createToken jwt keystore p requested
       = (case sign jwt p (map_option Material (priority_select keystore requested))
                \<lparr>algorithm = None,
                 header_kid =
                   signingKid keystore (map_option Material (priority_select keystore requested))\<rparr> of
            Inl m \<Rightarrow> Inl (SigningError m)
          | Inr token \<Rightarrow> Inr token)" for jwt :: "'x jsonwebtoken"
    by (simp add: legacy_createToken_def sel Let_def)
  have r: "\<exists>K pre post.
             signingKid keystore (Some (Material key)) = Some K \<and> map_of keystore K = Some key
             \<and> map fst keystore = pre @ K # post
             \<and> (\<forall>K' \<in> set pre. map_of keystore K' \<noteq> Some key)"
    if "priority_select keystore requested = Some key" for key
  proof -
    have "\<exists>k. map_of keystore k = Some key"
      using priority_select_Some [OF that] .
    then obtain K where "signingKid keystore (Some (Material key)) = Some K"
      using signingKid_exists by blast
    then show ?thesis
      using signingKid_first [of keystore key K] by blast
  qed
  have e: "priority_select keystore requested = None" if "keystore = []"
    using that by (simp add: priority_select_def priority_fallback_def nonempty_def split: option.splits)
  have ec: "createToken jwt keystore p requested alg
            = (case sign jwt p None
                     \<lparr>algorithm = Some (case alg of None \<Rightarrow> ''HS512'' | Some a \<Rightarrow> a),
                      header_kid = None\<rparr> of
                 Inl m \<Rightarrow> Inl (SigningError m)
               | Inr token \<Rightarrow> Inr token)"
    if "keystore = []" for jwt :: "'x jsonwebtoken"
    by (simp add: c e [OF that] signingKid_none)
  have el: "legacy_createToken jwt keystore p requested
            = (case sign jwt p None \<lparr>algorithm = None, header_kid = None\<rparr> of
                 Inl m \<Rightarrow> Inl (SigningError m)
               | Inr token \<Rightarrow> Inr token)"
    if "keystore = []" for jwt :: "'x jsonwebtoken"
    by (simp add: l e [OF that] signingKid_none)
  have rc: "createToken (ref_jwt now) keystore p requested alg
            = Inl (SigningError ''secretOrPrivateKey must have a value'')"
    if "keystore = []"
    by (simp add: ec [OF that] ref_jwt_def)
  have rl: "legacy_createToken (ref_jwt now) keystore p requested
            = Inl (SigningError ''secretOrPrivateKey must have a value'')"
    if "keystore = []"
    by (simp add: el [OF that] ref_jwt_def)
  show ?thesis
    by (intro conjI allI impI; (rule sel c l | erule r ec el rc rl))
qed

text \<open>
  The theorem at a keystore in which \<^verbatim>\<open>a\<close> and \<^verbatim>\<open>b\<close> hold the same material:
  requesting \<^verbatim>\<open>b\<close> signs with it and records \<^verbatim>\<open>a\<close>; requesting nothing selects
  \<^verbatim>\<open>default\<close>. At a keystore without \<^verbatim>\<open>default\<close>, an unknown id selects the first
  entry; a requested entry with empty material yields \<^verbatim>\<open>default\<close>; an entry of the
  keystore named \<^verbatim>\<open>toString\<close> is selected when requested; the empty keystore fails;
  and the legacy module signs with the requested key.
\<close>

theorem key_selection_witness:
  "createToken (ref_jwt 1000) [(''a'', ''s''), (''b'', ''s''), (''default'', ''d'')]
     (JObj [(''sub'', JStr ''alice'')]) (Some ''b'') None
   = Inr (Signed ''HS512'' (Some ''a'') (JObj [(''sub'', JStr ''alice'')]) ''s'')
   \<and> createToken (ref_jwt 1000) [(''a'', ''s''), (''b'', ''s''), (''default'', ''d'')]
     (JObj [(''sub'', JStr ''alice'')]) None (Some ''ES512'')
   = Inr (Signed ''ES512'' (Some ''default'') (JObj [(''sub'', JStr ''alice'')]) ''d'')
   \<and> createToken (ref_jwt 1000) [(''x'', ''k''), (''y'', ''l'')]
     (JObj [(''sub'', JStr ''alice'')]) (Some ''missing'') None
   = Inr (Signed ''HS512'' (Some ''x'') (JObj [(''sub'', JStr ''alice'')]) ''k'')
   \<and> createToken (ref_jwt 1000) [(''a'', []), (''default'', ''d'')]
     (JObj [(''sub'', JStr ''alice'')]) (Some ''a'') None
   = Inr (Signed ''HS512'' (Some ''default'') (JObj [(''sub'', JStr ''alice'')]) ''d'')
   \<and> createToken (ref_jwt 1000) [(''toString'', ''t''), (''default'', ''d'')]
     (JObj [(''sub'', JStr ''alice'')]) (Some ''toString'') None
   = Inr (Signed ''HS512'' (Some ''toString'') (JObj [(''sub'', JStr ''alice'')]) ''t'')
   \<and> createToken (ref_jwt 1000) [] (JObj [(''sub'', JStr ''alice'')]) (Some ''a'') None
   = Inl (SigningError ''secretOrPrivateKey must have a value'')
   \<and> legacy_createToken (ref_jwt 1000) [(''x'', ''k''), (''y'', ''l'')]
     (JObj [(''sub'', JStr ''alice'')]) (Some ''y'')
   = Inr (Signed ''HS256'' (Some ''y'') (JObj [(''sub'', JStr ''alice'')]) ''l'')"
proof -
  let ?J = "ref_jwt 1000" and ?p = "JObj [(''sub'', JStr ''alice'')]"
  let ?ks = "[(''a'', ''s''), (''b'', ''s''), (''default'', ''d'')]"
  let ?xy = "[(''x'', ''k''), (''y'', ''l'')]"
  let ?ae = "[(''a'', []), (''default'', ''d'')]"
  let ?ts = "[(''toString'', ''t''), (''default'', ''d'')]"
  have u: "Some k = None \<longrightarrow> map_of ks ''undefined'' = None"
    "None = None \<longrightarrow> map_of ?ks ''undefined'' = None" for k :: string and ks :: keystore
    by simp_all
  have i: "\<forall>k. Some ''b'' = Some k \<and> map_of ?ks k = None \<longrightarrow> k \<notin> set object_prototype"
    "\<forall>k. None = Some k \<and> map_of ?ks k = None \<longrightarrow> k \<notin> set object_prototype"
    "\<forall>k. Some ''missing'' = Some k \<and> map_of ?xy k = None \<longrightarrow> k \<notin> set object_prototype"
    "\<forall>k. Some ''a'' = Some k \<and> map_of ?ae k = None \<longrightarrow> k \<notin> set object_prototype"
    "\<forall>k. Some ''toString'' = Some k \<and> map_of ?ts k = None \<longrightarrow> k \<notin> set object_prototype"
    "\<forall>k. Some ''a'' = Some k \<and> map_of ([] :: keystore) k = None \<longrightarrow> k \<notin> set object_prototype"
    "\<forall>k. Some ''y'' = Some k \<and> map_of ?xy k = None \<longrightarrow> k \<notin> set object_prototype"
    by (simp_all add: object_prototype_def)
  have w1: "createToken ?J ?ks ?p (Some ''b'') None = Inr (Signed ''HS512'' (Some ''a'') ?p ''s'')"
    using key_selection [OF u(1) i(1), THEN conjunct2, THEN conjunct1, of ?J ?p None]
    by (simp add: priority_select_def nonempty_def signingKid_material ref_jwt_def)
  have w2: "createToken ?J ?ks ?p None (Some ''ES512'')
            = Inr (Signed ''ES512'' (Some ''default'') ?p ''d'')"
    using key_selection [OF u(2) i(2), THEN conjunct2, THEN conjunct1, of ?J ?p "Some ''ES512''"]
    by (simp add: priority_select_def priority_fallback_def nonempty_def signingKid_material
          ref_jwt_def)
  have w3: "createToken ?J ?xy ?p (Some ''missing'') None
            = Inr (Signed ''HS512'' (Some ''x'') ?p ''k'')"
    using key_selection [OF u(1) i(3), THEN conjunct2, THEN conjunct1, of ?J ?p None]
    by (simp add: priority_select_def priority_fallback_def nonempty_def signingKid_material
          ref_jwt_def)
  have w4: "createToken ?J ?ae ?p (Some ''a'') None
            = Inr (Signed ''HS512'' (Some ''default'') ?p ''d'')"
    using key_selection [OF u(1) i(4), THEN conjunct2, THEN conjunct1, of ?J ?p None]
    by (simp add: priority_select_def priority_fallback_def nonempty_def signingKid_material
          ref_jwt_def)
  have w5: "createToken ?J ?ts ?p (Some ''toString'') None
            = Inr (Signed ''HS512'' (Some ''toString'') ?p ''t'')"
    using key_selection [OF u(1) i(5), THEN conjunct2, THEN conjunct1, of ?J ?p None]
    by (simp add: priority_select_def nonempty_def signingKid_material ref_jwt_def)
  have w6: "createToken ?J [] ?p (Some ''a'') None
            = Inl (SigningError ''secretOrPrivateKey must have a value'')"
    using key_selection [OF u(1) i(6), THEN conjunct2, THEN conjunct2, THEN conjunct2,
        THEN conjunct2, THEN conjunct2, THEN conjunct2, THEN conjunct1, of 1000 ?p None]
    by simp
  have w7: "legacy_createToken ?J ?xy ?p (Some ''y'')
            = Inr (Signed ''HS256'' (Some ''y'') ?p ''l'')"
    using key_selection [OF u(1) i(7), THEN conjunct2, THEN conjunct2, THEN conjunct1, of ?J ?p]
    by (simp add: priority_select_def nonempty_def signingKid_material ref_jwt_def)
  show ?thesis
    using w1 w2 w3 w4 w5 w6 w7 by simp
qed

section \<open>Issuing and then verifying\<close>

text \<open>
  Claim C6, as stated, holds for every payload. A payload whose \<^verbatim>\<open>exp\<close> claim lies in
  the past is signed without complaint and then rejected by the primitive as expired: the
  round trip ends in \<open>VerificationError\<close>.
\<close>

theorem roundtrip_counterexample:
  "createToken (ref_jwt 1000) [(''k1'', ''secret'')] (JObj [(''sub'', JStr ''alice''), (''exp'', JNum 1)])
     None None
   = Inr (Signed ''HS512'' (Some ''k1'') (JObj [(''sub'', JStr ''alice''), (''exp'', JNum 1)]) ''secret'')
   \<and> verifyTokenAndReturnPayloadAndKid (ref_jwt 1000) env0 [(''k1'', ''secret'')] ''local''
       (Signed ''HS512'' (Some ''k1'') (JObj [(''sub'', JStr ''alice''), (''exp'', JNum 1)]) ''secret'')
   = ([(''k1'', \<lparr>algorithms = [''HS512''], maxAge = None\<rparr>)],
      Inl (VerificationError ''jwt expired''))"
  by (simp add: createToken_def signingKey_def signingKid_def js_or_def js_get_def truthy_key_def
        propertyKey_def firstKey_def object_prototype_def ref_jwt_def
        verifyTokenAndReturnPayloadAndKid_def build_jwtOptions_def algorithms_for_def
        verifyWithKid_def nonempty_def Let_def)

text \<open>
  Claim C6, amended. Let the keystore be non-empty with non-empty identifiers and key
  material, let a requested id that names no entry not be the name of an inherited
  member, and let \<open>P\<close> be a truthy payload (a claims object) that the primitive
  round-trips for this keystore: signing \<open>P\<close> with the material of an entry, under the
  algorithm of issuance and with an identifier of the keystore as \<^verbatim>\<open>kid\<close>, yields a
  token that decodes to that \<^verbatim>\<open>kid\<close> and to \<open>P\<close>, and that verifies to \<open>P\<close> under
  the same material with the options the engine builds for it (so the purpose permits the
  algorithm, and \<open>P\<close> is neither expired nor too old). Nothing is assumed of other
  algorithms, other options or other keys. Then issuing a token from \<open>P\<close> and verifying
  it against the same keystore succeeds with payload \<open>P\<close> and a matched key id of the
  keystore, whose material is the key that signed.
\<close>

theorem roundtrip:
  assumes "keystore \<noteq> []"
      and "\<forall>entry \<in> set keystore. fst entry \<noteq> [] \<and> snd entry \<noteq> []"
      and "truthy P"
      and "\<forall>k. requested = Some k \<and> map_of keystore k = None \<longrightarrow> k \<notin> set object_prototype"
      and "\<And>key h. key \<in> snd ` set keystore \<Longrightarrow> h \<in> fst ` set keystore \<Longrightarrow>
             \<exists>tok. sign jwt P (Some (Material key))
                      \<lparr>algorithm = Some (case alg of None \<Rightarrow> ''HS512'' | Some a \<Rightarrow> a),
                       header_kid = Some h\<rparr> = Inr tok
                 \<and> decode jwt tok = Some \<lparr>header = \<lparr>kid = Some h\<rparr>, payload = P\<rparr>
                 \<and> verify jwt tok (Material key)
                      (build_jwtOptions e purpose (Some \<lparr>header = \<lparr>kid = Some h\<rparr>, payload = P\<rparr>))
                    = Inr P"
  shows "\<exists>tok calls K key.
           createToken jwt keystore P requested alg = Inr tok
         \<and> verifyTokenAndReturnPayloadAndKid jwt e keystore purpose tok = (calls, Inr (P, Some K))
         \<and> map_of keystore K = Some key
         \<and> signingKey keystore requested = Some (Material key)"
proof -
  let ?a = "case alg of None \<Rightarrow> ''HS512'' | Some a \<Rightarrow> a"
  have wf: "\<forall>entry \<in> set keystore. snd entry \<noteq> []"
    using assms(2) by simp
  obtain k key where key: "signingKey keystore requested = Some (Material key)" "key \<noteq> []"
      "map_of keystore k = Some key"
    using signingKey_own [OF assms(1) wf assms(4)] by blast
  obtain K where K: "signingKid keystore (Some (Material key)) = Some K"
    using signingKid_exists [OF key(3)] by blast
  have mK: "map_of keystore K = Some key"
    using signingKid_first [OF K] by simp
  have inK: "(K, key) \<in> set keystore"
    using mK by (rule map_of_SomeD)
  then have Kne: "K \<noteq> []"
    using assms(2) by force
  have idK: "K \<in> fst ` set keystore" and inkey: "key \<in> snd ` set keystore"
    using inK by force+
  let ?d = "\<lparr>header = \<lparr>kid = Some K\<rparr>, payload = P\<rparr>"
  let ?vo = "build_jwtOptions e purpose (Some ?d)"
  obtain tok where tok:
      "sign jwt P (Some (Material key)) \<lparr>algorithm = Some ?a, header_kid = Some K\<rparr> = Inr tok"
      "decode jwt tok = Some ?d" "verify jwt tok (Material key) ?vo = Inr P"
    using assms(5) [OF inkey idK] by blast
  have c: "createToken jwt keystore P requested alg = Inr tok"
    by (simp add: createToken_def key(1) K tok(1) Let_def)
  have v: "verifyTokenAndReturnPayloadAndKid jwt e keystore purpose tok
           = ([(K, ?vo)], Inr (P, Some K))"
    unfolding verifyTokenAndReturnPayloadAndKid_unfold tok(2)
    by (rule strategies_kid_success [OF refl _ Kne mK key(2) tok(3) assms(3)]) simp
  show ?thesis
    using c v mK key(1) by blast
qed

text \<open>
  The theorem at the reference primitive, an unexpired payload and a keystore in which the
  requested id \<^verbatim>\<open>b\<close> shares its material with \<^verbatim>\<open>a\<close>: the matched key id is
  \<^verbatim>\<open>a\<close>.
\<close>

theorem roundtrip_witness:
  "createToken (ref_jwt 1000) [(''a'', ''s''), (''b'', ''s'')]
     (JObj [(''sub'', JStr ''alice''), (''exp'', JNum 2000)]) (Some ''b'') None
   = Inr (Signed ''HS512'' (Some ''a'') (JObj [(''sub'', JStr ''alice''), (''exp'', JNum 2000)]) ''s'')
   \<and> verifyTokenAndReturnPayloadAndKid (ref_jwt 1000) env0 [(''a'', ''s''), (''b'', ''s'')] ''local''
       (Signed ''HS512'' (Some ''a'') (JObj [(''sub'', JStr ''alice''), (''exp'', JNum 2000)]) ''s'')
   = ([(''a'', \<lparr>algorithms = [''HS512''], maxAge = None\<rparr>)],
      Inr (JObj [(''sub'', JStr ''alice''), (''exp'', JNum 2000)], Some ''a''))"
proof -
  let ?J = "ref_jwt 1000" and ?P = "JObj [(''sub'', JStr ''alice''), (''exp'', JNum 2000)]"
  let ?ks = "[(''a'', ''s''), (''b'', ''s'')]"
  have h1: "?ks \<noteq> []"
    and h2: "\<forall>entry \<in> set ?ks. fst entry \<noteq> [] \<and> snd entry \<noteq> []"
    and h3: "truthy ?P"
    and h4: "\<forall>k. Some ''b'' = Some k \<and> map_of ?ks k = None \<longrightarrow> k \<notin> set object_prototype"
    by simp_all
  have law: "\<exists>tok. sign ?J ?P (Some (Material key))
                      \<lparr>algorithm = Some (case None of None \<Rightarrow> ''HS512'' | Some a \<Rightarrow> a),
                       header_kid = Some h\<rparr> = Inr tok
                 \<and> decode ?J tok = Some \<lparr>header = \<lparr>kid = Some h\<rparr>, payload = ?P\<rparr>
                 \<and> verify ?J tok (Material key)
                      (build_jwtOptions env0 ''local''
                         (Some \<lparr>header = \<lparr>kid = Some h\<rparr>, payload = ?P\<rparr>))
                    = Inr ?P"
    if "key \<in> snd ` set ?ks" "h \<in> fst ` set ?ks" for key h
    using that by (auto simp: ref_jwt_def build_jwtOptions_def algorithms_for_def)
  have c: "createToken ?J ?ks ?P (Some ''b'') None = Inr (Signed ''HS512'' (Some ''a'') ?P ''s'')"
    by (simp add: createToken_def signingKey_def signingKid_def js_or_def js_get_def
          propertyKey_def ref_jwt_def Let_def)
  have "\<exists>tok calls K key.
           createToken ?J ?ks ?P (Some ''b'') None = Inr tok
         \<and> verifyTokenAndReturnPayloadAndKid ?J env0 ?ks ''local'' tok = (calls, Inr (?P, Some K))
         \<and> map_of ?ks K = Some key
         \<and> signingKey ?ks (Some ''b'') = Some (Material key)"
    using roundtrip [OF h1 h2 h3 h4 law] by blast
  moreover have "verifyTokenAndReturnPayloadAndKid ?J env0 ?ks ''local''
                   (Signed ''HS512'' (Some ''a'') ?P ''s'')
                 = ([(''a'', \<lparr>algorithms = [''HS512''], maxAge = None\<rparr>)], Inr (?P, Some ''a''))"
    by (simp add: verifyTokenAndReturnPayloadAndKid_def build_jwtOptions_def algorithms_for_def
          verifyWithKid_def nonempty_def js_get_def truthy_key_def ref_jwt_def Let_def)
  ultimately show ?thesis
    using c by simp
qed

end
